theory Spec2Isabelle
  imports Complex_Main
begin

section \<open>Python string operations used by the add-on\<close>

text \<open>
  A Python \<open>str\<close> is modelled as a HOL \<open>string\<close>; a character stands for a code point
  below 256.  \<open>isspace\<close> is Python's \<open>str.isspace\<close> on that range: the characters that
  \<open>str.strip()\<close> without argument removes.
\<close>

definition isspace :: "char \<Rightarrow> bool" where
  "isspace c = (of_char c \<in> {9, 10, 11, 12, 13, 28, 29, 30, 31, 32, 133, 160 :: nat})"

text \<open>\<open>s.strip(...)\<close>: drop the characters satisfying \<open>P\<close> from both ends.\<close>

definition strip_where :: "(char \<Rightarrow> bool) \<Rightarrow> string \<Rightarrow> string" where
  "strip_where P s = rev (dropWhile P (rev (dropWhile P s)))"

text \<open>\<open>s.strip()\<close>\<close>

definition strip :: "string \<Rightarrow> string" where
  "strip s = strip_where isspace s"

text \<open>\<open>s.strip(chars)\<close>\<close>

definition strip_chars :: "string \<Rightarrow> string \<Rightarrow> string" where
  "strip_chars chars s = strip_where (\<lambda>c. c \<in> set chars) s"

text \<open>The argument of \<open>line.strip('"\'')\<close>: the double and the single quote.\<close>

definition quote_chars :: string where
  "quote_chars = [CHR 0x22, CHR 0x27]"

section \<open>Reading the two text files\<close>

text \<open>
  \<open>open(path, 'r', encoding='utf-8')\<close> followed by \<open>f.readlines()\<close> either raises
  \<open>FileNotFoundError\<close>, raises another exception \<open>e\<close> (kept as \<open>str(e)\<close>), or
  yields the list of lines, each with its line terminator.
\<close>

datatype read_result = FileNotFound | ReadError string | Lines "string list"

text \<open>\<open>[line.strip() for line in f.readlines() if line.strip()]\<close>\<close>

definition material_names_of :: "string list \<Rightarrow> string list" where
  "material_names_of ls = map strip (filter (\<lambda>line. strip line \<noteq> []) ls)"

text \<open>The loop over the lines of the texture-path file.\<close>

fun texture_paths_of :: "string list \<Rightarrow> string list" where
  "texture_paths_of [] = []"
| "texture_paths_of (line # rest) =
     (let line' = strip line in
      if line' \<noteq> [] then strip_chars quote_chars line' # texture_paths_of rest
      else texture_paths_of rest)"

section \<open>The host application's data\<close>

text \<open>
  The add-on drives the host through \<open>bpy\<close>.  The part of the host's data it touches is
  modelled as a record; Python object references are indices into the collections, which
  only grow while the add-on runs.  A node field holding \<open>None\<close> has not been assigned by
  the add-on and keeps the host's default.  Host calls outside a \<open>try\<close> block are taken
  to succeed; the calls inside one may raise, as the environment says.
\<close>

type_synonym colour = "real \<times> real \<times> real \<times> real"

record img =
  img_name :: string
  img_filepath :: string
  img_source :: string
  img_size :: "nat \<times> nat"

record node =
  node_type :: string
  node_location :: "int \<times> int"
  node_image :: "nat option"
  node_interpolation :: "string option"
  node_base_color :: "colour option"

record link =
  link_from :: "nat \<times> string"
  link_to :: "nat \<times> string"

record material =
  mat_name :: string
  mat_use_nodes :: bool
  mat_nodes :: "node list"
  mat_links :: "link list"
  mat_asset :: bool

record scene_object =
  obj_name :: string
  obj_data_name :: string
  obj_size :: real
  obj_location :: "real \<times> real \<times> real"
  obj_materials :: "nat list"
  obj_selected :: bool

text \<open>The calls inside the \<open>try\<close> block of the texture set-up, where the host may raise.\<close>

datatype tex_call =
    ScanImages | LoadImage | NewImage | PlaceholderPath | SetSource
  | AssignImage | SetFilepath | Reload | SetInterpolation | LinkAlpha

text \<open>One constructor for each \<open>print\<close> statement, with the values it interpolates.\<close>

datatype out_line =
    WarnCountMismatch nat nat
  | Creating nat nat string
  | AlreadyExists string
  | FoundExistingImage string
  | LoadedNewImage string string
  | CreatedPlaceholder string string
  | FileMissing string
  | ImageReloaded
  | FinalImageSize nat nat
  | CouldNotReload
  | FilepathSet string
  | ErrorSettingUp string tex_call
  | SetRedFallback
  | NodesCreated nat
  | LinksCreated nat
  | MarkedAsset string
  | CouldNotMark string
  | MarkedAssetAlt string
  | AltMarkFailed string
  | FoundMaterials nat
  | CreatedPlane string real real real
  | PrintMessage string

record world =
  materials :: "material list"
  images :: "img list"
  objects :: "scene_object list"
  active_object :: "nat option"
  stdout :: "out_line list"

text \<open>
  What the add-on reads from outside: the file system, \<open>os.path\<close>, the socket names the
  host gives to a node type, and which guarded host calls raise (for the material name and
  texture path being processed).  Two choices of the host are left to the environment as
  well: \<open>unique_name taken base\<close> is the name the host makes up for a data-block when the
  name asked for is empty or is one of the names \<open>taken\<close> in its collection, and
  \<open>host_size im\<close> is the size the host reports for the image \<open>im\<close> after it was
  loaded or reloaded, or after its file path or source was assigned.
\<close>

record env =
  read_lines :: "string \<Rightarrow> read_result"
  normpath :: "string \<Rightarrow> string"
  basename :: "string \<Rightarrow> string"
  path_exists :: "string \<Rightarrow> bool"
  host_size :: "img \<Rightarrow> nat \<times> nat"
  unique_name :: "string list \<Rightarrow> string \<Rightarrow> string"
  outputs_of :: "string \<Rightarrow> string list"
  inputs_of :: "string \<Rightarrow> string list"
  raises :: "string \<Rightarrow> string \<Rightarrow> tex_call \<Rightarrow> bool"
  asset_mark_raises :: "string \<Rightarrow> bool"
  ops_asset_mark_raises :: "string \<Rightarrow> bool"

section \<open>Host operations\<close>

definition py_print :: "out_line \<Rightarrow> world \<Rightarrow> world" where
  "py_print l w = w\<lparr>stdout := stdout w @ [l]\<rparr>"

definition update_material :: "nat \<Rightarrow> (material \<Rightarrow> material) \<Rightarrow> world \<Rightarrow> world" where
  "update_material m f w = w\<lparr>materials := (materials w)[m := f (materials w ! m)]\<rparr>"

definition update_node :: "nat \<Rightarrow> nat \<Rightarrow> (node \<Rightarrow> node) \<Rightarrow> world \<Rightarrow> world" where
  "update_node m k f w =
     update_material m (\<lambda>mat. mat\<lparr>mat_nodes := (mat_nodes mat)[k := f (mat_nodes mat ! k)]\<rparr>) w"

definition update_image :: "nat \<Rightarrow> (img \<Rightarrow> img) \<Rightarrow> world \<Rightarrow> world" where
  "update_image k f w = w\<lparr>images := (images w)[k := f (images w ! k)]\<rparr>"

text \<open>
  The host keeps the name of a data-block in at most 63 bytes of UTF-8 and keeps the names
  of a collection distinct.  A code point below 128 takes one byte, the others (below 256)
  two; a name that is too long is cut after the last character that fits.
\<close>

definition utf8_size :: "char \<Rightarrow> nat" where
  "utf8_size c = (if (of_char c :: nat) < 128 then 1 else 2)"

definition utf8_length :: "string \<Rightarrow> nat" where
  "utf8_length s = sum_list (map utf8_size s)"

fun truncate_utf8 :: "nat \<Rightarrow> string \<Rightarrow> string" where
  "truncate_utf8 n [] = []"
| "truncate_utf8 n (c # cs) =
     (if utf8_size c \<le> n then c # truncate_utf8 (n - utf8_size c) cs else [])"

definition max_name_bytes :: nat where
  "max_name_bytes = 63"

text \<open>
  The name a data-block gets when \<open>nm\<close> is asked for, in a collection where the names
  \<open>taken\<close> are in use: \<open>nm\<close> cut to the limit if that is a free, non-empty name, and a
  name of the host's making otherwise.
\<close>

definition host_name :: "env \<Rightarrow> string list \<Rightarrow> string \<Rightarrow> string" where
  "host_name env taken nm =
     (let base = truncate_utf8 max_name_bytes nm in
      if base = [] \<or> base \<in> set taken then unique_name env taken base else base)"

text \<open>
  \<open>bpy.data.materials.new(name=...)\<close>: a fresh material, named by the host after the
  requested name, returned as a reference.
\<close>

definition materials_new :: "env \<Rightarrow> string \<Rightarrow> world \<Rightarrow> world \<times> nat" where
  "materials_new env nm w =
     (w\<lparr>materials := materials w @
          [\<lparr>mat_name = host_name env (map mat_name (materials w)) nm, mat_use_nodes = False,
            mat_nodes = [], mat_links = [], mat_asset = False\<rparr>]\<rparr>,
      length (materials w))"

text \<open>\<open>mat.node_tree.nodes.new(type=...)\<close>\<close>

definition nodes_new :: "nat \<Rightarrow> string \<Rightarrow> world \<Rightarrow> world \<times> nat" where
  "nodes_new m ty w =
     (update_material m (\<lambda>mat. mat\<lparr>mat_nodes := mat_nodes mat @
          [\<lparr>node_type = ty, node_location = (0, 0), node_image = None,
            node_interpolation = None, node_base_color = None\<rparr>]\<rparr>) w,
      length (mat_nodes (materials w ! m)))"

text \<open>\<open>mat.node_tree.links.new(a.outputs[x], b.inputs[y])\<close>\<close>

definition links_new :: "nat \<Rightarrow> nat \<times> string \<Rightarrow> nat \<times> string \<Rightarrow> world \<Rightarrow> world" where
  "links_new m src dst w =
     update_material m (\<lambda>mat. mat\<lparr>mat_links := mat_links mat @
          [\<lparr>link_from = src, link_to = dst\<rparr>]\<rparr>) w"

text \<open>The host looks at the image again and reports its size.\<close>

definition resized :: "env \<Rightarrow> img \<Rightarrow> img" where
  "resized env im = im\<lparr>img_size := host_size env im\<rparr>"

text \<open>
  \<open>bpy.data.images.load(path)\<close>: the image of the file, named by the host after the
  file's base name.
\<close>

definition images_load :: "env \<Rightarrow> string \<Rightarrow> world \<Rightarrow> world \<times> nat" where
  "images_load env path w =
     (w\<lparr>images := images w @
          [resized env
             \<lparr>img_name = host_name env (map img_name (images w)) (basename env path),
              img_filepath = path, img_source = ''FILE'', img_size = (0, 0)\<rparr>]\<rparr>,
      length (images w))"

text \<open>
  \<open>bpy.data.images.new(name, width, height)\<close>: a generated image of that size, without
  a file, named by the host after the requested name.
\<close>

definition images_new :: "env \<Rightarrow> string \<Rightarrow> nat \<Rightarrow> nat \<Rightarrow> world \<Rightarrow> world \<times> nat" where
  "images_new env nm width height w =
     (w\<lparr>images := images w @
          [\<lparr>img_name = host_name env (map img_name (images w)) nm, img_filepath = [],
            img_source = ''GENERATED'', img_size = (width, height)\<rparr>]\<rparr>,
      length (images w))"

text \<open>\<open>img.filepath = path\<close>, \<open>img.source = source\<close> and \<open>img.reload()\<close>\<close>

definition set_filepath :: "env \<Rightarrow> string \<Rightarrow> img \<Rightarrow> img" where
  "set_filepath env path im = resized env (im\<lparr>img_filepath := path\<rparr>)"

definition set_source :: "env \<Rightarrow> string \<Rightarrow> img \<Rightarrow> img" where
  "set_source env source im = resized env (im\<lparr>img_source := source\<rparr>)"

definition reload :: "env \<Rightarrow> img \<Rightarrow> img" where
  "reload env im = resized env im"

section \<open>create_materials_from_files\<close>

text \<open>
  The scan of \<open>bpy.data.images\<close> for an image whose non-empty file path normalises to
  \<open>np\<close>; the first hit wins (\<open>break\<close>).  \<open>k\<close> is the position of the head of the list.
\<close>

fun find_image :: "env \<Rightarrow> string \<Rightarrow> img list \<Rightarrow> nat \<Rightarrow> nat option" where
  "find_image env np [] k = None"
| "find_image env np (existing_img # rest) k =
     (if img_filepath existing_img \<noteq> [] \<and> normpath env (img_filepath existing_img) = np
      then Some k else find_image env np rest (Suc k))"

text \<open>
  A guarded computation ends in \<open>Inl (c, w)\<close> when call \<open>c\<close> raised in world \<open>w\<close>
  (what was done before the call stays done) and in \<open>Inr\<close> otherwise.

  \<open>obtain_image\<close> is the first half of the \<open>try\<close> block: find the image, load it, or
  create the placeholder.
\<close>

definition obtain_image ::
  "env \<Rightarrow> string \<Rightarrow> string \<Rightarrow> string \<Rightarrow> world \<Rightarrow> (tex_call \<times> world) + (nat \<times> world)" where
  "obtain_image env mat_nm texture_path normalized_path w =
     (let img_nm = basename env normalized_path in
      if raises env mat_nm texture_path ScanImages then Inl (ScanImages, w)
      else case find_image env normalized_path (images w) 0 of
        Some k \<Rightarrow> Inr (k, py_print (FoundExistingImage (img_name (images w ! k))) w)
      | None \<Rightarrow>
          if path_exists env normalized_path then
            (if raises env mat_nm texture_path LoadImage then Inl (LoadImage, w)
             else let (w, k) = images_load env normalized_path w in
               Inr (k, py_print (LoadedNewImage (img_name (images w ! k)) normalized_path) w))
          else
            (if raises env mat_nm texture_path NewImage then Inl (NewImage, w)
             else let (w, k) = images_new env img_nm 1024 1024 w in
               if raises env mat_nm texture_path PlaceholderPath then Inl (PlaceholderPath, w)
               else let w = update_image k (set_filepath env normalized_path) w in
                 if raises env mat_nm texture_path SetSource then Inl (SetSource, w)
                 else let w = update_image k (set_source env ''FILE'') w;
                          w = py_print (CreatedPlaceholder (img_name (images w ! k))
                                normalized_path) w;
                          w = py_print (FileMissing normalized_path) w
                      in Inr (k, w)))"

text \<open>The inner \<open>try: img.reload() ... except: ...\<close>, which swallows the exception.\<close>

definition try_reload :: "env \<Rightarrow> string \<Rightarrow> string \<Rightarrow> nat \<Rightarrow> world \<Rightarrow> world" where
  "try_reload env mat_nm texture_path k w =
     (if raises env mat_nm texture_path Reload then py_print CouldNotReload w
      else let w = update_image k (reload env) w;
               w = py_print ImageReloaded w
           in py_print (FinalImageSize (fst (img_size (images w ! k)))
                          (snd (img_size (images w ! k)))) w)"

text \<open>The body of the outer \<open>try\<close>.\<close>

definition setup_texture ::
  "env \<Rightarrow> nat \<Rightarrow> nat \<Rightarrow> nat \<Rightarrow> string \<Rightarrow> string \<Rightarrow> world \<Rightarrow> (tex_call \<times> world) + world" where
  "setup_texture env mat bsdf_node tex_node mat_nm texture_path w =
     (let normalized_path = normpath env texture_path in
      case obtain_image env mat_nm texture_path normalized_path w of
        Inl e \<Rightarrow> Inl e
      | Inr (k, w) \<Rightarrow>
          if raises env mat_nm texture_path AssignImage then Inl (AssignImage, w)
          else let w = update_node mat tex_node (\<lambda>n. n\<lparr>node_image := Some k\<rparr>) w in
            if raises env mat_nm texture_path SetFilepath then Inl (SetFilepath, w)
            else let w = update_image k (set_filepath env normalized_path) w;
                     w = (if path_exists env normalized_path
                          then try_reload env mat_nm texture_path k w else w)
                 in
              if raises env mat_nm texture_path SetInterpolation
              then Inl (SetInterpolation, w)
              else let w = update_node mat tex_node
                             (\<lambda>n. n\<lparr>node_interpolation := Some ''Linear''\<rparr>) w in
                if ''Alpha'' \<in> set (outputs_of env ''ShaderNodeTexImage'')
                   \<and> ''Alpha'' \<in> set (inputs_of env ''ShaderNodeBsdfPrincipled'')
                then
                  (if raises env mat_nm texture_path LinkAlpha then Inl (LinkAlpha, w)
                   else let w = links_new mat (tex_node, ''Alpha'') (bsdf_node, ''Alpha'') w
                        in Inr (py_print (FilepathSet (img_filepath (images w ! k))) w))
                else Inr (py_print (FilepathSet (img_filepath (images w ! k))) w))"

definition fallback_color :: colour where
  "fallback_color = (0.8, 0.2, 0.2, 1.0)"

text \<open>
  The statements between the duplicate check and the \<open>try\<close>: the new material and its
  five nodes.  The default nodes that the host adds on \<open>use_nodes = True\<close> are removed by
  \<open>nodes.clear()\<close> at once and are not represented.  Returns the references
  \<open>(mat, bsdf_node, tex_node)\<close>.
\<close>

definition build_nodes :: "env \<Rightarrow> string \<Rightarrow> world \<Rightarrow> world \<times> nat \<times> nat \<times> nat" where
  "build_nodes env mat_nm w =
     (let (w, mat) = materials_new env mat_nm w;
          w = update_material mat (\<lambda>m. m\<lparr>mat_use_nodes := True\<rparr>) w;
          w = update_material mat (\<lambda>m. m\<lparr>mat_nodes := [], mat_links := []\<rparr>) w;
          (w, output_node) = nodes_new mat ''ShaderNodeOutputMaterial'' w;
          w = update_node mat output_node (\<lambda>n. n\<lparr>node_location := (800, 0)\<rparr>) w;
          (w, bsdf_node) = nodes_new mat ''ShaderNodeBsdfPrincipled'' w;
          w = update_node mat bsdf_node (\<lambda>n. n\<lparr>node_location := (400, 0)\<rparr>) w;
          w = links_new mat (bsdf_node, ''BSDF'') (output_node, ''Surface'') w;
          (w, tex_coord_node) = nodes_new mat ''ShaderNodeTexCoord'' w;
          w = update_node mat tex_coord_node (\<lambda>n. n\<lparr>node_location := (- 800, 0)\<rparr>) w;
          (w, mapping_node) = nodes_new mat ''ShaderNodeMapping'' w;
          w = update_node mat mapping_node (\<lambda>n. n\<lparr>node_location := (- 600, 0)\<rparr>) w;
          (w, tex_node) = nodes_new mat ''ShaderNodeTexImage'' w;
          w = update_node mat tex_node (\<lambda>n. n\<lparr>node_location := (- 400, 0)\<rparr>) w;
          w = links_new mat (tex_coord_node, ''UV'') (mapping_node, ''Vector'') w;
          w = links_new mat (mapping_node, ''Vector'') (tex_node, ''Vector'') w;
          w = links_new mat (tex_node, ''Color'') (bsdf_node, ''Base Color'') w
      in (w, mat, bsdf_node, tex_node))"

text \<open>
  One iteration of the loop over \<open>enumerate(zip(material_names, texture_paths))\<close>;
  \<open>n\<close> is \<open>len(material_names)\<close> and \<open>created\<close> is \<open>created_materials\<close>.
\<close>

definition create_material ::
  "env \<Rightarrow> nat \<Rightarrow> nat \<Rightarrow> string \<Rightarrow> string \<Rightarrow> world \<times> nat list \<Rightarrow> world \<times> nat list" where
  "create_material env n i mat_nm texture_path st =
     (let (w, created) = st;
          w = py_print (Creating (i + 1) n mat_nm) w
      in if mat_nm \<in> set (map mat_name (materials w))
         then (py_print (AlreadyExists mat_nm) w, created)
         else
           let (w, mat, bsdf_node, tex_node) = build_nodes env mat_nm w;
               w = (case setup_texture env mat bsdf_node tex_node mat_nm texture_path w of
                      Inr w \<Rightarrow> w
                    | Inl (e, w) \<Rightarrow>
                        let w = py_print (ErrorSettingUp texture_path e) w;
                            w = update_node mat bsdf_node
                                  (\<lambda>nd. nd\<lparr>node_base_color := Some fallback_color\<rparr>) w
                        in py_print SetRedFallback w);
               w = py_print (NodesCreated (length (mat_nodes (materials w ! mat)))) w;
               w = py_print (LinksCreated (length (mat_links (materials w ! mat)))) w
           in (w, created @ [mat]))"

fun create_loop ::
  "env \<Rightarrow> nat \<Rightarrow> nat \<Rightarrow> (string \<times> string) list \<Rightarrow> world \<times> nat list \<Rightarrow> world \<times> nat list" where
  "create_loop env n i [] st = st"
| "create_loop env n i ((mat_nm, texture_path) # rest) st =
     create_loop env n (Suc i) rest (create_material env n i mat_nm texture_path st)"

text \<open>The second loop: mark every created material as an asset, with its fallback.\<close>

fun mark_assets :: "env \<Rightarrow> nat list \<Rightarrow> world \<Rightarrow> world" where
  "mark_assets env [] w = w"
| "mark_assets env (mat # rest) w =
     (let w = w\<lparr>active_object := None\<rparr>;
          nm = mat_name (materials w ! mat);
          w = (if \<not> asset_mark_raises env nm
               then py_print (MarkedAsset nm)
                      (update_material mat (\<lambda>m. m\<lparr>mat_asset := True\<rparr>) w)
               else let w = py_print (CouldNotMark nm) w in
                 if \<not> ops_asset_mark_raises env nm
                 then py_print (MarkedAssetAlt nm)
                        (update_material mat (\<lambda>m. m\<lparr>mat_asset := True\<rparr>) w)
                 else py_print (AltMarkFailed nm) w)
      in mark_assets env rest w)"

text \<open>The result dictionary: \<open>{'success': False, 'message': m}\<close> or
  \<open>{'success': True, 'count': c}\<close>.\<close>

datatype result = Failure string | Success nat

definition create_materials_from_files ::
  "env \<Rightarrow> string \<Rightarrow> string \<Rightarrow> world \<Rightarrow> result \<times> world" where
  "create_materials_from_files env input_file_path path_file_path w =
     (case read_lines env input_file_path of
        FileNotFound \<Rightarrow> (Failure (''Could not find input file: '' @ input_file_path), w)
      | ReadError e \<Rightarrow> (Failure (''Error reading input file: '' @ e), w)
      | Lines input_lines \<Rightarrow>
          let material_names = material_names_of input_lines in
          (case read_lines env path_file_path of
             FileNotFound \<Rightarrow> (Failure (''Could not find path file: '' @ path_file_path), w)
           | ReadError e \<Rightarrow> (Failure (''Error reading path file: '' @ e), w)
           | Lines path_lines \<Rightarrow>
               let texture_paths = texture_paths_of path_lines in
               if material_names = []
               then (Failure ''No material names found in input file'', w)
               else if texture_paths = []
               then (Failure ''No texture paths found in path file'', w)
               else
                 let (w, material_names, texture_paths) =
                       (if length material_names \<noteq> length texture_paths
                        then
                          let w = py_print (WarnCountMismatch (length material_names)
                                    (length texture_paths)) w;
                              count = min (length material_names) (length texture_paths)
                          in (w, take count material_names, take count texture_paths)
                        else (w, material_names, texture_paths));
                     (w, created_materials) =
                       create_loop env (length material_names) 0
                         (zip material_names texture_paths) (w, [])
                 in (Success (length created_materials),
                     mark_assets env created_materials w)))"

text \<open>\<open>str(n)\<close> for a non-negative integer, as the f-strings render it.\<close>

fun str_nat :: "nat \<Rightarrow> string" where
  "str_nat n = (if n < 10 then [''0123456789'' ! n]
                else str_nat (n div 10) @ [''0123456789'' ! (n mod 10)])"

text \<open>\<open>MATERIAL_OT_create_materials.execute\<close>: the operator reports the outcome.\<close>

datatype report_type = ERROR | INFO

datatype status = FINISHED | CANCELLED

record props =
  input_file_path :: string
  path_file_path :: string

definition execute ::
  "env \<Rightarrow> props \<Rightarrow> world \<Rightarrow> ((report_type \<times> string) \<times> status) \<times> world" where
  "execute env ps w =
     (if input_file_path ps = [] \<or> path_file_path ps = []
      then (((ERROR, ''Please select both input and path files''), CANCELLED), w)
      else case create_materials_from_files env (input_file_path ps) (path_file_path ps) w of
        (Success count, w') \<Rightarrow>
          (((INFO, ''Successfully created '' @ str_nat count
                     @ '' materials and marked as assets''), FINISHED), w')
      | (Failure message, w') \<Rightarrow> (((ERROR, message), CANCELLED), w'))"

section \<open>create_material_planes\<close>

definition plane_size :: real where
  "plane_size = 2.0"

definition spacing :: real where
  "spacing = 0.5"

definition grid_spacing :: real where
  "grid_spacing = plane_size + spacing"

text \<open>\<open>bpy.ops.object.select_all(action='DESELECT')\<close>\<close>

definition select_all_deselect :: "world \<Rightarrow> world" where
  "select_all_deselect w = w\<lparr>objects := map (\<lambda>ob. ob\<lparr>obj_selected := False\<rparr>) (objects w)\<rparr>"

text \<open>
  \<open>bpy.ops.mesh.primitive_plane_add(size=..., location=...)\<close>: the new plane has no
  material slot yet; it becomes the active object and the only selected one.  The host
  names the object and its mesh after \<open>Plane\<close>.  A mesh is kept with the object that uses
  it, so the names taken by meshes are those of the objects' data.
\<close>

definition primitive_plane_add ::
  "env \<Rightarrow> real \<Rightarrow> real \<times> real \<times> real \<Rightarrow> world \<Rightarrow> world" where
  "primitive_plane_add env sz location w =
     w\<lparr>objects := map (\<lambda>ob. ob\<lparr>obj_selected := False\<rparr>) (objects w) @
          [\<lparr>obj_name = host_name env (map obj_name (objects w)) ''Plane'',
            obj_data_name = host_name env (map obj_data_name (objects w)) ''Plane'',
            obj_size = sz, obj_location = location, obj_materials = [],
            obj_selected = True\<rparr>],
       active_object := Some (length (objects w))\<rparr>"

definition update_object :: "nat \<Rightarrow> (scene_object \<Rightarrow> scene_object) \<Rightarrow> world \<Rightarrow> world" where
  "update_object k f w = w\<lparr>objects := (objects w)[k := f (objects w ! k)]\<rparr>"

text \<open>The elements of a list other than the one at position \<open>k\<close>.\<close>

definition others :: "nat \<Rightarrow> 'a list \<Rightarrow> 'a list" where
  "others k xs = take k xs @ drop (Suc k) xs"

text \<open>
  The body of the loop over \<open>enumerate(materials)\<close>.  After \<open>primitive_plane_add\<close>
  there is an active object, so the \<open>None\<close> branch is never taken.  The two assignments
  to \<open>name\<close> rename the object and its mesh: the host gives each the name asked for, cut
  to its limit, unless another object or mesh bears it.
\<close>

definition place_plane :: "env \<Rightarrow> nat \<Rightarrow> nat \<Rightarrow> nat \<Rightarrow> world \<Rightarrow> world" where
  "place_plane env grid_width i material w =
     (let row = i div grid_width;
          col = i mod grid_width;
          x_pos = real col * grid_spacing;
          y_pos = real row * grid_spacing;
          z_pos = 0;
          w = primitive_plane_add env plane_size (x_pos, y_pos, z_pos) w
      in case active_object w of
           None \<Rightarrow> w
         | Some obj \<Rightarrow>
             let nm = mat_name (materials w ! material);
                 w = update_object obj (\<lambda>ob. ob\<lparr>obj_name :=
                       host_name env (map obj_name (others obj (objects w))) nm\<rparr>) w;
                 w = update_object obj (\<lambda>ob. ob\<lparr>obj_data_name :=
                       host_name env (map obj_data_name (others obj (objects w)))
                         (''Plane_'' @ nm)\<rparr>) w;
                 w = (if length (obj_materials (objects w ! obj)) = 0
                      then update_object obj
                             (\<lambda>ob. ob\<lparr>obj_materials := obj_materials ob @ [material]\<rparr>) w
                      else update_object obj
                             (\<lambda>ob. ob\<lparr>obj_materials := (obj_materials ob)[0 := material]\<rparr>) w)
             in py_print (CreatedPlane nm x_pos y_pos z_pos) w)"

fun planes_loop :: "env \<Rightarrow> nat \<Rightarrow> nat \<Rightarrow> nat list \<Rightarrow> world \<Rightarrow> world" where
  "planes_loop env grid_width i [] w = w"
| "planes_loop env grid_width i (material # rest) w =
     planes_loop env grid_width (Suc i) rest (place_plane env grid_width i material w)"

text \<open>
  \<open>math.ceil(math.sqrt(n))\<close> and \<open>math.ceil(n / grid_width)\<close> are taken over the reals:
  the floating-point results are the same for every number of materials below \<open>2^52\<close>.
  The result is \<open>(success, message)\<close>.
\<close>

definition create_material_planes :: "env \<Rightarrow> world \<Rightarrow> (bool \<times> string) \<times> world" where
  "create_material_planes env w =
     (let mats = [0..<length (materials w)] in
      if mats = [] then ((False, ''No materials found in the scene!''), w)
      else
        let w = py_print (FoundMaterials (length mats)) w;
            w = select_all_deselect w;
            grid_width = nat \<lceil>sqrt (real (length mats))\<rceil>;
            w = planes_loop env grid_width 0 mats w;
            message = ''Successfully created '' @ str_nat (length mats)
                      @ '' planes arranged in a '' @ str_nat grid_width @ ''x''
                      @ str_nat (nat \<lceil>real (length mats) / real grid_width\<rceil>) @ '' grid'';
            w = py_print (PrintMessage message) w
        in ((True, message), w))"

section \<open>Auxiliary notions for the proofs\<close>

text \<open>A node as \<open>nodes.new\<close> followed by the assignment of its location leaves it.\<close>

definition new_node :: "string \<Rightarrow> int \<times> int \<Rightarrow> node" where
  "new_node ty loc = \<lparr>node_type = ty, node_location = loc, node_image = None,
     node_interpolation = None, node_base_color = None\<rparr>"

text \<open>The name that the host gives to a material made in world \<open>w\<close> when \<open>nm\<close> is asked for.\<close>

abbreviation stored_name :: "env \<Rightarrow> world \<Rightarrow> string \<Rightarrow> string" where
  "stored_name env w nm \<equiv> host_name env (map mat_name (materials w)) nm"

text \<open>The material as the statements before the \<open>try\<close> block leave it.\<close>

definition built_material :: "string \<Rightarrow> material" where
  "built_material nm =
     \<lparr>mat_name = nm, mat_use_nodes = True,
      mat_nodes = [new_node ''ShaderNodeOutputMaterial'' (800, 0),
                   new_node ''ShaderNodeBsdfPrincipled'' (400, 0),
                   new_node ''ShaderNodeTexCoord'' (- 800, 0),
                   new_node ''ShaderNodeMapping'' (- 600, 0),
                   new_node ''ShaderNodeTexImage'' (- 400, 0)],
      mat_links = [\<lparr>link_from = (1, ''BSDF''), link_to = (0, ''Surface'')\<rparr>,
                   \<lparr>link_from = (2, ''UV''), link_to = (3, ''Vector'')\<rparr>,
                   \<lparr>link_from = (3, ''Vector''), link_to = (4, ''Vector'')\<rparr>,
                   \<lparr>link_from = (4, ''Color''), link_to = (1, ''Base Color'')\<rparr>],
      mat_asset = False\<rparr>"

text \<open>The world in which a guarded computation ended, whether it raised or not.\<close>

definition world_of :: "(tex_call \<times> world) + world \<Rightarrow> world" where
  "world_of r = (case r of Inl (c, w) \<Rightarrow> w | Inr w \<Rightarrow> w)"

definition obtained_world :: "(tex_call \<times> world) + (nat \<times> world) \<Rightarrow> world" where
  "obtained_world r = (case r of Inl (c, w) \<Rightarrow> w | Inr (k, w) \<Rightarrow> w)"

text \<open>The material after a texture set-up that ran to its end with image \<open>k\<close>.\<close>

definition textured_material :: "string \<Rightarrow> nat \<Rightarrow> bool \<Rightarrow> material" where
  "textured_material nm k alpha =
     \<lparr>mat_name = nm, mat_use_nodes = True,
      mat_nodes = [new_node ''ShaderNodeOutputMaterial'' (800, 0),
                   new_node ''ShaderNodeBsdfPrincipled'' (400, 0),
                   new_node ''ShaderNodeTexCoord'' (- 800, 0),
                   new_node ''ShaderNodeMapping'' (- 600, 0),
                   (new_node ''ShaderNodeTexImage'' (- 400, 0))
                     \<lparr>node_image := Some k, node_interpolation := Some ''Linear''\<rparr>],
      mat_links = [\<lparr>link_from = (1, ''BSDF''), link_to = (0, ''Surface'')\<rparr>,
                   \<lparr>link_from = (2, ''UV''), link_to = (3, ''Vector'')\<rparr>,
                   \<lparr>link_from = (3, ''Vector''), link_to = (4, ''Vector'')\<rparr>,
                   \<lparr>link_from = (4, ''Color''), link_to = (1, ''Base Color'')\<rparr>]
                  @ (if alpha then [\<lparr>link_from = (4, ''Alpha''), link_to = (1, ''Alpha'')\<rparr>]
                     else []),
      mat_asset = False\<rparr>"

text \<open>
  The file path of the image attached to the image texture node (the fifth node) of
  material \<open>q\<close>.
\<close>

definition texture_of :: "world \<Rightarrow> nat \<Rightarrow> string option" where
  "texture_of w q =
     (case node_image (mat_nodes (materials w ! q) ! 4) of
        None \<Rightarrow> None
      | Some k \<Rightarrow> if k < length (images w) then Some (img_filepath (images w ! k)) else None)"

text \<open>What \<open>create_material_planes\<close> decides about a plane; its names are the host's.\<close>

definition placement :: "scene_object \<Rightarrow> real \<times> (real \<times> real \<times> real) \<times> nat list" where
  "placement ob = (obj_size ob, obj_location ob, obj_materials ob)"

text \<open>
  The host calls that the \<open>try\<close> block of the texture set-up makes for a texture path in
  a world, in their order, when none of them raises.
\<close>

definition calls_on_path :: "env \<Rightarrow> string \<Rightarrow> world \<Rightarrow> tex_call list" where
  "calls_on_path env texture_path w =
     (let normalized_path = normpath env texture_path in
      [ScanImages]
      @ (case find_image env normalized_path (images w) 0 of
           Some k \<Rightarrow> []
         | None \<Rightarrow>
             if path_exists env normalized_path then [LoadImage]
             else [NewImage, PlaceholderPath, SetSource])
      @ [AssignImage, SetFilepath]
      @ (if path_exists env normalized_path then [Reload] else [])
      @ [SetInterpolation]
      @ (if ''Alpha'' \<in> set (outputs_of env ''ShaderNodeTexImage'')
            \<and> ''Alpha'' \<in> set (inputs_of env ''ShaderNodeBsdfPrincipled'')
         then [LinkAlpha] else []))"

text \<open>
  The image that the texture set-up leaves for a missing file: made by
  \<open>images.new(name, 1024, 1024)\<close>, then given its file path, the source \<open>FILE\<close> and
  the file path once more.  \<open>taken\<close> are the names of the images that exist.
\<close>

definition placeholder_image :: "env \<Rightarrow> string list \<Rightarrow> string \<Rightarrow> img" where
  "placeholder_image env taken path =
     set_filepath env path (set_source env ''FILE'' (set_filepath env path
       \<lparr>img_name = host_name env taken (basename env path), img_filepath = [],
        img_source = ''GENERATED'', img_size = (1024, 1024)\<rparr>))"

text \<open>
  The image that the texture set-up leaves for a file that exists and was not loaded
  before: loaded, given its file path and, unless \<open>img.reload()\<close> raises, reloaded.
\<close>

definition loaded_image :: "env \<Rightarrow> string list \<Rightarrow> string \<Rightarrow> bool \<Rightarrow> img" where
  "loaded_image env taken path reloaded =
     (let im = set_filepath env path (resized env
                 \<lparr>img_name = host_name env taken (basename env path), img_filepath = path,
                  img_source = ''FILE'', img_size = (0, 0)\<rparr>)
      in if reloaded then reload env im else im)"

section \<open>Sample files and worlds\<close>

text \<open>Concrete inputs on which the theorems below are instantiated.\<close>

definition names_file :: "string list" where
  "names_file = [''wood'' @ [CHR 0x0A], [CHR 0x0A], ''  stone '' @ [CHR 0x0A],
                 ''wood'' @ [CHR 0x0A], ''glass'' @ [CHR 0x0A]]"

definition paths_file :: "string list" where
  "paths_file = [CHR 0x22 # ''a.png'' @ [CHR 0x22, CHR 0x0A], ''b.png'' @ [CHR 0x0A],
                 ''c.png'' @ [CHR 0x0A], ''d.png'' @ [CHR 0x0A], ''e.png'' @ [CHR 0x0A]]"

definition blank_file :: "string list" where
  "blank_file = [[CHR 0x0A], ''  '' @ [CHR 0x0A]]"

text \<open>A name of 70 bytes, and a names file that holds it twice.\<close>

definition long_name :: string where
  "long_name = replicate 70 CHR ''x''"

definition long_names_file :: "string list" where
  "long_names_file = [long_name @ [CHR 0x0A], long_name @ [CHR 0x0A]]"

text \<open>
  In the sample environment no texture file exists: the host reports the size \<open>(0, 0)\<close>
  for an image with a file as its source, and the size a generated image was made with.  A
  name that is taken gets the suffix \<open>.001\<close>.
\<close>

definition demo_env :: env where
  "demo_env =
     \<lparr>read_lines = (\<lambda>p.
        if p = ''names.txt'' then Lines names_file
        else if p = ''paths.txt'' then Lines paths_file
        else if p = ''blank.txt'' then Lines blank_file
        else if p = ''long.txt'' then Lines long_names_file
        else if p = ''folder'' then ReadError ''Is a directory''
        else FileNotFound),
      normpath = (\<lambda>p. p), basename = (\<lambda>p. p), path_exists = (\<lambda>p. False),
      host_size = (\<lambda>im. if img_source im = ''GENERATED'' then img_size im else (0, 0)),
      unique_name = (\<lambda>taken base. base @ ''.001''),
      outputs_of = (\<lambda>t. if t = ''ShaderNodeTexImage'' then [''Color'', ''Alpha''] else []),
      inputs_of = (\<lambda>t. if t = ''ShaderNodeBsdfPrincipled''
                            then [''Base Color'', ''Alpha''] else []),
      raises = (\<lambda>nm tp c. False),
      asset_mark_raises = (\<lambda>nm. False), ops_asset_mark_raises = (\<lambda>nm. False)\<rparr>"

definition empty_world :: world where
  "empty_world = \<lparr>materials = [], images = [], objects = [], active_object = None, stdout = []\<rparr>"

definition stone_world :: world where
  "stone_world = empty_world\<lparr>materials :=
     [\<lparr>mat_name = ''stone'', mat_use_nodes = False, mat_nodes = [], mat_links = [],
       mat_asset = False\<rparr>]\<rparr>"

text \<open>The image made for a texture file \<open>p\<close> that is missing, in the sample environment.\<close>

definition placeholder :: "string \<Rightarrow> img" where
  "placeholder p = \<lparr>img_name = p, img_filepath = p, img_source = ''FILE'',
     img_size = (0, 0)\<rparr>"

text \<open>
  Two environments in which every texture file exists: in the first \<open>img.reload()\<close>
  raises, in the second \<open>bpy.data.images.load\<close> raises.  In a third one the files are
  missing and linking the alpha sockets raises.
\<close>

definition reload_env :: env where
  "reload_env = demo_env\<lparr>path_exists := (\<lambda>p. True), host_size := (\<lambda>im. (512, 256)),
     raises := (\<lambda>nm tp c. c = Reload)\<rparr>"

definition alpha_error_env :: env where
  "alpha_error_env = demo_env\<lparr>raises := (\<lambda>nm tp c. c = LinkAlpha)\<rparr>"

definition load_error_env :: env where
  "load_error_env = demo_env\<lparr>path_exists := (\<lambda>p. True),
     raises := (\<lambda>nm tp c. c = LoadImage)\<rparr>"

text \<open>A world with five materials and no object.\<close>

definition bare_material :: "string \<Rightarrow> material" where
  "bare_material nm = \<lparr>mat_name = nm, mat_use_nodes = False, mat_nodes = [], mat_links = [],
     mat_asset = False\<rparr>"

definition five_world :: world where
  "five_world = \<lparr>materials = map bare_material [''m0'', ''m1'', ''m2'', ''m3'', ''m4''],
     images = [], objects = [], active_object = None, stdout = []\<rparr>"

section \<open>Stripping\<close>

lemma strip_where_decomp:
  "\<exists>pre suf. s = pre @ strip_where P s @ suf \<and> (\<forall>c \<in> set pre. P c) \<and> (\<forall>c \<in> set suf. P c)"
proof -
  let ?t = "dropWhile P s"
  have a: "s = takeWhile P s @ ?t" by simp
  have "rev ?t = takeWhile P (rev ?t) @ dropWhile P (rev ?t)" by simp
  then have "?t = rev (dropWhile P (rev ?t)) @ rev (takeWhile P (rev ?t))"
    by (metis rev_append rev_rev_ident)
  then have b: "?t = strip_where P s @ rev (takeWhile P (rev ?t))"
    by (simp add: strip_where_def)
  have c: "\<forall>c \<in> set (takeWhile P s). P c"
    by (meson set_takeWhileD)
  have d: "\<forall>c \<in> set (rev (takeWhile P (rev ?t))). P c"
    by (metis set_rev set_takeWhileD)
  from a b have "s = takeWhile P s @ strip_where P s @ rev (takeWhile P (rev ?t))"
    by metis
  with c d show ?thesis by blast
qed

lemma last_dropWhile:
  "dropWhile P xs \<noteq> [] \<Longrightarrow> last (dropWhile P xs) = last xs"
  by (metis last_appendR takeWhile_dropWhile_id)

lemma strip_where_ends:
  assumes "strip_where P s \<noteq> []"
  shows "\<not> P (hd (strip_where P s))" and "\<not> P (last (strip_where P s))"
proof -
  let ?t = "dropWhile P s"
  let ?u = "dropWhile P (rev ?t)"
  from assms have u: "?u \<noteq> []" by (simp add: strip_where_def)
  then have "\<not> P (hd ?u)" by (rule hd_dropWhile)
  then show "\<not> P (last (strip_where P s))"
    using u by (simp add: strip_where_def last_rev)
  from u have "rev ?t \<noteq> []" by (metis dropWhile.simps(1))
  then have t: "?t \<noteq> []" by simp
  then have nt: "\<not> P (hd ?t)" by (rule hd_dropWhile)
  have "hd (rev ?u) = last ?u" using u by (simp add: hd_rev)
  also have "\<dots> = last (rev ?t)" using u by (rule last_dropWhile)
  also have "\<dots> = hd ?t" using t by (simp add: last_rev)
  finally show "\<not> P (hd (strip_where P s))" using nt by (simp add: strip_where_def)
qed

lemma strip_where_unchanged:
  assumes "s \<noteq> []" "\<not> P (hd s)" "\<not> P (last s)"
  shows "strip_where P s = s"
proof -
  from assms have "dropWhile P s = s" by (cases s) auto
  moreover from assms have "dropWhile P (rev s) = rev s"
    by (cases "rev s") (auto simp: last_rev hd_rev)
  ultimately show ?thesis by (simp add: strip_where_def)
qed

lemma texture_paths_of_eq:
  "texture_paths_of ls =
     map (\<lambda>l. strip_chars quote_chars (strip l)) (filter (\<lambda>l. strip l \<noteq> []) ls)"
  by (induction ls) (simp_all add: Let_def)

section \<open>Effect of the host operations\<close>

lemma nth_list_update_proj:
  "(\<And>x. p (g x) = p x) \<Longrightarrow> p (xs[k := g (xs ! k)] ! j) = p (xs ! j)"
  by (cases "k < length xs") (auto simp: nth_list_update list_update_beyond not_less)

lemma py_print_proj [simp]:
  "materials (py_print l w) = materials w"
  "images (py_print l w) = images w"
  "objects (py_print l w) = objects w"
  "active_object (py_print l w) = active_object w"
  "stdout (py_print l w) = stdout w @ [l]"
  by (simp_all add: py_print_def)

lemma update_material_proj [simp]:
  "materials (update_material m f w) = (materials w)[m := f (materials w ! m)]"
  "images (update_material m f w) = images w"
  "objects (update_material m f w) = objects w"
  "active_object (update_material m f w) = active_object w"
  "stdout (update_material m f w) = stdout w"
  by (simp_all add: update_material_def)

lemma update_node_materials:
  "materials (update_node m k f w) =
     (materials w)[m := (materials w ! m)\<lparr>mat_nodes :=
        (mat_nodes (materials w ! m))[k := f (mat_nodes (materials w ! m) ! k)]\<rparr>]"
  by (simp add: update_node_def)

lemma update_node_proj [simp]:
  "length (materials (update_node m k f w)) = length (materials w)"
  "mat_name (materials (update_node m k f w) ! j) = mat_name (materials w ! j)"
  "mat_asset (materials (update_node m k f w) ! j) = mat_asset (materials w ! j)"
  "mat_links (materials (update_node m k f w) ! j) = mat_links (materials w ! j)"
  "j \<noteq> m \<Longrightarrow> materials (update_node m k f w) ! j = materials w ! j"
  "images (update_node m k f w) = images w"
  "objects (update_node m k f w) = objects w"
  "active_object (update_node m k f w) = active_object w"
  "stdout (update_node m k f w) = stdout w"
  by (simp_all add: update_node_def nth_list_update_proj)

lemma update_node_length_nodes [simp]:
  "length (mat_nodes (materials (update_node m k f w) ! j))
     = length (mat_nodes (materials w ! j))"
  using nth_list_update_proj [where p = "\<lambda>x. length (mat_nodes x)"
      and g = "\<lambda>x. x\<lparr>mat_nodes := (mat_nodes x)[k := f (mat_nodes x ! k)]\<rparr>"
      and xs = "materials w" and k = m and j = j]
  by (simp add: update_node_def update_material_def)

lemma links_new_materials:
  "materials (links_new m src dst w) =
     (materials w)[m := (materials w ! m)\<lparr>mat_links := mat_links (materials w ! m) @
        [\<lparr>link_from = src, link_to = dst\<rparr>]\<rparr>]"
  by (simp add: links_new_def)

lemma links_new_proj [simp]:
  "length (materials (links_new m src dst w)) = length (materials w)"
  "mat_name (materials (links_new m src dst w) ! j) = mat_name (materials w ! j)"
  "mat_asset (materials (links_new m src dst w) ! j) = mat_asset (materials w ! j)"
  "mat_nodes (materials (links_new m src dst w) ! j) = mat_nodes (materials w ! j)"
  "j \<noteq> m \<Longrightarrow> materials (links_new m src dst w) ! j = materials w ! j"
  "images (links_new m src dst w) = images w"
  "objects (links_new m src dst w) = objects w"
  "active_object (links_new m src dst w) = active_object w"
  "stdout (links_new m src dst w) = stdout w"
  by (simp_all add: links_new_def nth_list_update_proj)

lemma update_image_proj [simp]:
  "materials (update_image k f w) = materials w"
  "images (update_image k f w) = (images w)[k := f (images w ! k)]"
  "objects (update_image k f w) = objects w"
  "active_object (update_image k f w) = active_object w"
  "stdout (update_image k f w) = stdout w"
  by (simp_all add: update_image_def)

lemma resized_proj [simp]:
  "img_name (resized env im) = img_name im"
  "img_filepath (resized env im) = img_filepath im"
  "img_source (resized env im) = img_source im"
  "img_name (reload env im) = img_name im"
  "img_filepath (reload env im) = img_filepath im"
  "img_source (reload env im) = img_source im"
  "img_name (set_filepath env p im) = img_name im"
  "img_filepath (set_filepath env p im) = p"
  "img_source (set_filepath env p im) = img_source im"
  "img_name (set_source env src im) = img_name im"
  "img_filepath (set_source env src im) = img_filepath im"
  "img_source (set_source env src im) = src"
  by (simp_all add: resized_def reload_def set_filepath_def set_source_def)

lemma images_load_proj [simp]:
  "materials (fst (images_load env p w)) = materials w"
  "images (fst (images_load env p w)) = images w @
     [resized env \<lparr>img_name = host_name env (map img_name (images w)) (basename env p),
        img_filepath = p, img_source = ''FILE'', img_size = (0, 0)\<rparr>]"
  "objects (fst (images_load env p w)) = objects w"
  "active_object (fst (images_load env p w)) = active_object w"
  "stdout (fst (images_load env p w)) = stdout w"
  "snd (images_load env p w) = length (images w)"
  by (simp_all add: images_load_def)

lemma images_new_proj [simp]:
  "materials (fst (images_new env nm a b w)) = materials w"
  "images (fst (images_new env nm a b w)) = images w @
     [\<lparr>img_name = host_name env (map img_name (images w)) nm, img_filepath = [],
       img_source = ''GENERATED'', img_size = (a, b)\<rparr>]"
  "objects (fst (images_new env nm a b w)) = objects w"
  "active_object (fst (images_new env nm a b w)) = active_object w"
  "stdout (fst (images_new env nm a b w)) = stdout w"
  "snd (images_new env nm a b w) = length (images w)"
  by (simp_all add: images_new_def)

lemma find_image_sound:
  "find_image env np imgs j = Some k \<Longrightarrow>
     j \<le> k \<and> k - j < length imgs \<and> img_filepath (imgs ! (k - j)) \<noteq> []
     \<and> normpath env (img_filepath (imgs ! (k - j))) = np"
proof (induction imgs arbitrary: j)
  case Nil
  then show ?case by simp
next
  case (Cons im rest)
  show ?case
  proof (cases "img_filepath im \<noteq> [] \<and> normpath env (img_filepath im) = np")
    case True
    with Cons.prems show ?thesis by simp
  next
    case False
    with Cons.prems have "find_image env np rest (Suc j) = Some k" by auto
    from Cons.IH [OF this] show ?thesis
      by (auto simp: Suc_diff_le)
  qed
qed

lemma try_reload_proj [simp]:
  "materials (try_reload env nm tp k w) = materials w"
  "objects (try_reload env nm tp k w) = objects w"
  "active_object (try_reload env nm tp k w) = active_object w"
  "length (images (try_reload env nm tp k w)) = length (images w)"
  "img_filepath (images (try_reload env nm tp k w) ! j) = img_filepath (images w ! j)"
  "img_name (images (try_reload env nm tp k w) ! j) = img_name (images w ! j)"
  "img_source (images (try_reload env nm tp k w) ! j) = img_source (images w ! j)"
  by (auto simp: try_reload_def Let_def nth_list_update_proj)

lemma try_reload_stdout: "\<exists>r. stdout (try_reload env nm tp k w) = stdout w @ r"
  by (simp add: try_reload_def Let_def)


lemma obtain_image_frame:
  "materials (obtained_world (obtain_image env nm tp np w)) = materials w
   \<and> objects (obtained_world (obtain_image env nm tp np w)) = objects w
   \<and> active_object (obtained_world (obtain_image env nm tp np w)) = active_object w
   \<and> length (images w) \<le> length (images (obtained_world (obtain_image env nm tp np w)))
   \<and> (\<forall>j < length (images w).
         images (obtained_world (obtain_image env nm tp np w)) ! j = images w ! j)
   \<and> (\<exists>r. stdout (obtained_world (obtain_image env nm tp np w)) = stdout w @ r)"
  by (auto simp: obtain_image_def obtained_world_def Let_def case_prod_beta nth_append
           split: option.splits)

lemma obtain_image_Inr:
  assumes "obtain_image env nm tp np w = Inr (k, w')"
  shows "k < length (images w')"
    and "k < length (images w) \<longrightarrow> normpath env (img_filepath (images w ! k)) = np"
  using assms find_image_sound [of env np "images w" 0 k]
  by (auto simp: obtain_image_def Let_def case_prod_beta split: option.splits if_splits)

lemma obtain_image_Inl:
  assumes "obtain_image env nm tp np w = Inl (c, w')"
  shows "c \<noteq> Reload"
  using assms
  by (auto simp: obtain_image_def Let_def case_prod_beta split: option.splits if_splits)


lemma obtain_image_InrD:
  assumes "obtain_image env nm tp np w = Inr (k, w')"
  shows "materials w' = materials w \<and> objects w' = objects w
     \<and> active_object w' = active_object w
     \<and> length (images w) \<le> length (images w')
     \<and> (\<forall>j < length (images w). images w' ! j = images w ! j)
     \<and> (\<exists>r. stdout w' = stdout w @ r)
     \<and> k < length (images w')
     \<and> (k < length (images w) \<longrightarrow> normpath env (img_filepath (images w ! k)) = np)"
  using obtain_image_frame [of env nm tp np w] obtain_image_Inr [OF assms] assms
  by (simp add: obtained_world_def)

lemma obtain_image_InlD:
  assumes "obtain_image env nm tp np w = Inl (c, w')"
  shows "materials w' = materials w \<and> objects w' = objects w
     \<and> active_object w' = active_object w
     \<and> length (images w) \<le> length (images w')
     \<and> (\<forall>j < length (images w). images w' ! j = images w ! j)
     \<and> (\<exists>r. stdout w' = stdout w @ r)
     \<and> c \<noteq> Reload"
  using obtain_image_frame [of env nm tp np w] obtain_image_Inl [OF assms] assms
  by (simp add: obtained_world_def)

lemma setup_texture_frame:
  assumes r_def: "w' = world_of (setup_texture env mat b t nm tp w)"
  shows "length (materials w') = length (materials w)
     \<and> (\<forall>j. j \<noteq> mat \<longrightarrow> materials w' ! j = materials w ! j)
     \<and> (\<forall>j. mat_name (materials w' ! j) = mat_name (materials w ! j))
     \<and> (\<forall>j. mat_asset (materials w' ! j) = mat_asset (materials w ! j))
     \<and> (\<forall>j. length (mat_nodes (materials w' ! j)) = length (mat_nodes (materials w ! j)))
     \<and> objects w' = objects w \<and> active_object w' = active_object w
     \<and> length (images w) \<le> length (images w')
     \<and> (\<exists>s. stdout w' = stdout w @ s)"
proof (cases "obtain_image env nm tp (normpath env tp) w")
  case (Inl e)
  obtain c w1 where e: "e = (c, w1)" by (cases e)
  from obtain_image_InlD [OF Inl [unfolded e]] Inl e show ?thesis
    by (auto simp: r_def setup_texture_def world_of_def)
next
  case (Inr p)
  obtain k w1 where p: "p = (k, w1)" by (cases p)
  from obtain_image_InrD [OF Inr [unfolded p]]
  have w1: "materials w1 = materials w" "objects w1 = objects w"
    "active_object w1 = active_object w" "length (images w) \<le> length (images w1)"
    and "\<exists>s. stdout w1 = stdout w @ s" by auto
  then obtain s1 where s1: "stdout w1 = stdout w @ s1" by blast
  obtain s2 where s2: "\<And>x. stdout (try_reload env nm tp k x) = stdout x @ s2 x"
    using try_reload_stdout by metis
  show ?thesis using w1 s1 Inr p
    by (auto simp: r_def setup_texture_def world_of_def Let_def s2)
qed

lemma update_material_last:
  "update_material (length ms) f (w\<lparr>materials := ms @ [m]\<rparr>) = w\<lparr>materials := ms @ [f m]\<rparr>"
  by (simp add: update_material_def)

lemma update_node_last:
  "update_node (length ms) k f (w\<lparr>materials := ms @ [m]\<rparr>) =
     w\<lparr>materials := ms @ [m\<lparr>mat_nodes := (mat_nodes m)[k := f (mat_nodes m ! k)]\<rparr>]\<rparr>"
  by (simp add: update_node_def update_material_last)

lemma nodes_new_last:
  "nodes_new (length ms) ty (w\<lparr>materials := ms @ [m]\<rparr>) =
     (w\<lparr>materials := ms @ [m\<lparr>mat_nodes := mat_nodes m @
          [\<lparr>node_type = ty, node_location = (0, 0), node_image = None,
            node_interpolation = None, node_base_color = None\<rparr>]\<rparr>]\<rparr>,
      length (mat_nodes m))"
  by (simp add: nodes_new_def update_material_last)

lemma links_new_last:
  "links_new (length ms) src dst (w\<lparr>materials := ms @ [m]\<rparr>) =
     w\<lparr>materials := ms @ [m\<lparr>mat_links := mat_links m @
          [\<lparr>link_from = src, link_to = dst\<rparr>]\<rparr>]\<rparr>"
  by (simp add: links_new_def update_material_last)

lemma build_nodes_eq:
  "build_nodes env nm w =
     (w\<lparr>materials := materials w
          @ [built_material (stored_name env w nm)]\<rparr>,
      length (materials w), 1, 4)"
  by (simp add: build_nodes_def materials_new_def update_material_last nodes_new_last
        update_node_last links_new_last built_material_def new_node_def Let_def)

lemma update_node_nth:
  "m < length (materials w) \<Longrightarrow> k < length (mat_nodes (materials w ! m)) \<Longrightarrow>
     mat_nodes (materials (update_node m k f w) ! m) ! k = f (mat_nodes (materials w ! m) ! k)"
  by (simp add: update_node_materials)

lemma update_node_nth_other:
  "k' \<noteq> k \<Longrightarrow>
     mat_nodes (materials (update_node m k f w) ! j) ! k' = mat_nodes (materials w ! j) ! k'"
  by (cases "m < length (materials w)"; cases "j = m")
     (simp_all add: update_node_materials list_update_beyond not_less)

lemma setup_texture_Inl:
  assumes "setup_texture env mat b t nm tp w = Inl (c, w')"
  shows "c \<noteq> Reload"
proof (cases "obtain_image env nm tp (normpath env tp) w")
  case (Inl e)
  obtain c1 w1 where e: "e = (c1, w1)" by (cases e)
  from obtain_image_InlD [OF Inl [unfolded e]] Inl e assms show ?thesis
    by (auto simp: setup_texture_def)
next
  case (Inr p)
  obtain k w1 where p: "p = (k, w1)" by (cases p)
  from assms Inr p show ?thesis
    by (auto simp: setup_texture_def Let_def split: if_splits)
qed

lemma setup_texture_no_raise:
  assumes "\<forall>c. c \<noteq> Reload \<longrightarrow> \<not> raises env nm tp c"
  shows "\<exists>w'. setup_texture env mat b t nm tp w = Inr w'"
proof -
  from assms have "\<exists>k w1. obtain_image env nm tp (normpath env tp) w = Inr (k, w1)"
    by (auto simp: obtain_image_def Let_def case_prod_beta split: option.splits)
  then obtain k w1 where "obtain_image env nm tp (normpath env tp) w = Inr (k, w1)" by blast
  with assms show ?thesis
    by (auto simp: setup_texture_def Let_def)
qed

lemma setup_texture_Inr:
  assumes r: "setup_texture env mat b t nm tp w = Inr w'"
    and mat: "mat < length (materials w)"
    and t: "t < length (mat_nodes (materials w ! mat))"
  shows "\<exists>k < length (images w').
           node_image (mat_nodes (materials w' ! mat) ! t) = Some k
           \<and> img_filepath (images w' ! k) = normpath env tp"
proof (cases "obtain_image env nm tp (normpath env tp) w")
  case (Inl e)
  with r show ?thesis by (auto simp: setup_texture_def)
next
  case (Inr p)
  obtain k w1 where p: "p = (k, w1)" by (cases p)
  from obtain_image_InrD [OF Inr [unfolded p]]
  have w1: "materials w1 = materials w" "k < length (images w1)" by auto
  from r Inr p w1 mat t show ?thesis
    by (auto simp: setup_texture_def Let_def update_node_nth nth_list_update_proj
             split: if_splits)
qed


lemma setup_texture_image_stable:
  assumes v: "normpath env v = v" and j: "j < length (images w)"
    and f: "img_filepath (images w ! j) = v"
  shows "img_filepath (images (world_of (setup_texture env mat b t nm tp w)) ! j) = v"
proof (cases "obtain_image env nm tp (normpath env tp) w")
  case (Inl e)
  obtain c1 w1 where e: "e = (c1, w1)" by (cases e)
  from obtain_image_InlD [OF Inl [unfolded e]] Inl e j f show ?thesis
    by (auto simp: setup_texture_def world_of_def)
next
  case (Inr p)
  obtain k w1 where p: "p = (k, w1)" by (cases p)
  from obtain_image_InrD [OF Inr [unfolded p]] j
  have w1: "images w1 ! j = images w ! j" "j < length (images w1)" "k < length (images w1)"
    and k: "k < length (images w) \<longrightarrow> normpath env (img_filepath (images w ! k)) = normpath env tp"
    by auto
  have same: "k = j \<Longrightarrow> normpath env tp = v" using k j f v by auto
  show ?thesis using Inr p w1 f same
    by (auto simp: setup_texture_def world_of_def Let_def nth_list_update)
qed

lemma list_snoc_nth:
  "length ys = Suc (length xs) \<Longrightarrow> (\<forall>j < length xs. ys ! j = xs ! j) \<Longrightarrow>
     ys = xs @ [ys ! length xs]"
  by (auto intro!: nth_equalityI simp: nth_append less_Suc_eq)

lemma create_material_skip:
  "nm \<in> set (map mat_name (materials w)) \<Longrightarrow>
     create_material env n i nm tp (w, cr) =
       (py_print (AlreadyExists nm) (py_print (Creating (i + 1) n nm) w), cr)"
  by (simp add: create_material_def Let_def)

lemma create_material_unfold:
  assumes "nm \<notin> set (map mat_name (materials w))"
  shows "create_material env n i nm tp (w, cr) =
     (let mat = length (materials w);
          w1 = (py_print (Creating (i + 1) n nm) w)
                 \<lparr>materials := materials w @ [built_material (stored_name env w nm)]\<rparr>;
          w2 = (case setup_texture env mat 1 4 nm tp w1 of
                  Inr w \<Rightarrow> w
                | Inl (e, w) \<Rightarrow>
                    py_print SetRedFallback
                      (update_node mat 1 (\<lambda>nd. nd\<lparr>node_base_color := Some fallback_color\<rparr>)
                        (py_print (ErrorSettingUp tp e) w)));
          w3 = py_print (NodesCreated (length (mat_nodes (materials w2 ! mat)))) w2
      in (py_print (LinksCreated (length (mat_links (materials w3 ! mat)))) w3, cr @ [mat]))"
  using assms
  by (simp add: create_material_def build_nodes_eq Let_def split: sum.splits prod.splits)

lemma create_material_new:
  assumes new: "nm \<notin> set (map mat_name (materials w))"
    and res: "create_material env n i nm tp (w, cr) = (w', cr')"
  shows "cr' = cr @ [length (materials w)]"
    and "\<exists>m'. materials w' = materials w @ [m'] \<and> mat_name m' = stored_name env w nm \<and> \<not> mat_asset m'
           \<and> length (mat_nodes m') = 5"
    and "objects w' = objects w" and "active_object w' = active_object w"
    and "length (images w) \<le> length (images w')"
    and "\<exists>s. stdout w' = stdout w @ s"
proof -
  let ?mat = "length (materials w)"
  let ?w1 = "(py_print (Creating (i + 1) n nm) w)\<lparr>materials := materials w @ [built_material (stored_name env w nm)]\<rparr>"
  let ?r = "setup_texture env ?mat 1 4 nm tp ?w1"
  let ?w2 = "case ?r of Inr w \<Rightarrow> w
     | Inl (e, w) \<Rightarrow> py_print SetRedFallback
          (update_node ?mat 1 (\<lambda>nd. nd\<lparr>node_base_color := Some fallback_color\<rparr>)
             (py_print (ErrorSettingUp tp e) w))"
  from res create_material_unfold [OF new, where env = env and n = n and i = i and tp = tp and cr = cr]
  have w': "w' = py_print (LinksCreated (length (mat_links (materials ?w2 ! ?mat))))
                   (py_print (NodesCreated (length (mat_nodes (materials ?w2 ! ?mat)))) ?w2)"
    and cr': "cr' = cr @ [?mat]"
    by (simp_all add: Let_def)
  show "cr' = cr @ [length (materials w)]" by (rule cr')
  note fr = setup_texture_frame [OF refl, where env = env and mat = ?mat and b = 1
      and t = 4 and nm = nm and tp = tp and w = ?w1]
  have A: "length (materials ?w2) = Suc ?mat"
    "\<forall>j < ?mat. materials ?w2 ! j = materials w ! j"
    "mat_name (materials ?w2 ! ?mat) = stored_name env w nm" "\<not> mat_asset (materials ?w2 ! ?mat)"
    "length (mat_nodes (materials ?w2 ! ?mat)) = 5"
    "objects ?w2 = objects w" "active_object ?w2 = active_object w"
    "length (images w) \<le> length (images ?w2)"
    "\<exists>s. stdout ?w2 = stdout w @ s"
    using fr
    by (auto simp: world_of_def built_material_def nth_append split: sum.splits prod.splits)
  from A(1,2) have "materials ?w2 = materials w @ [materials ?w2 ! ?mat]"
    by (intro list_snoc_nth) auto
  with A(3,4,5) show "\<exists>m'. materials w' = materials w @ [m'] \<and> mat_name m' = stored_name env w nm
       \<and> \<not> mat_asset m' \<and> length (mat_nodes m') = 5"
    unfolding w' by (metis py_print_proj(1))
  show "objects w' = objects w" "active_object w' = active_object w"
    "length (images w) \<le> length (images w')"
    using A(6,7,8) unfolding w' by simp_all
  from A(9) show "\<exists>s. stdout w' = stdout w @ s" unfolding w' by auto
qed


lemma create_material_image_stable:
  assumes v: "normpath env v = v" and j: "j < length (images w)"
    and f: "img_filepath (images w ! j) = v"
  shows "img_filepath (images (fst (create_material env n i nm tp (w, cr))) ! j) = v"
proof (cases "nm \<in> set (map mat_name (materials w))")
  case True
  then show ?thesis using f by (simp add: create_material_skip)
next
  case False
  let ?mat = "length (materials w)"
  let ?w1 = "(py_print (Creating (i + 1) n nm) w)\<lparr>materials := materials w @ [built_material (stored_name env w nm)]\<rparr>"
  have "img_filepath (images (world_of (setup_texture env ?mat 1 4 nm tp ?w1)) ! j) = v"
    using v j f by (intro setup_texture_image_stable) simp_all
  then show ?thesis
    by (auto simp: create_material_unfold [OF False] Let_def world_of_def
             split: sum.splits prod.splits)
qed

lemma create_material_textured:
  assumes new: "nm \<notin> set (map mat_name (materials w))"
    and ok: "\<forall>c. c \<noteq> Reload \<longrightarrow> \<not> raises env nm tp c"
    and res: "create_material env n i nm tp (w, cr) = (w', cr')"
  shows "\<exists>k < length (images w').
           node_image (mat_nodes (materials w' ! length (materials w)) ! 4) = Some k
           \<and> img_filepath (images w' ! k) = normpath env tp"
proof -
  let ?mat = "length (materials w)"
  let ?w1 = "(py_print (Creating (i + 1) n nm) w)\<lparr>materials := materials w @ [built_material (stored_name env w nm)]\<rparr>"
  obtain w2 where r: "setup_texture env ?mat 1 4 nm tp ?w1 = Inr w2"
    using setup_texture_no_raise [OF ok] by blast
  have "\<exists>k < length (images w2).
           node_image (mat_nodes (materials w2 ! ?mat) ! 4) = Some k
           \<and> img_filepath (images w2 ! k) = normpath env tp"
    by (rule setup_texture_Inr [OF r]) (simp_all add: built_material_def)
  moreover from res r have "materials w' = materials w2" "images w' = images w2"
    by (auto simp: create_material_unfold [OF new] Let_def)
  ultimately show ?thesis by simp
qed

lemma create_material_fallback:
  assumes new: "nm \<notin> set (map mat_name (materials w))"
    and r: "setup_texture env (length (materials w)) 1 4 nm tp
              ((py_print (Creating (i + 1) n nm) w)
                 \<lparr>materials := materials w @ [built_material (stored_name env w nm)]\<rparr>) = Inl (c, w1)"
    and res: "create_material env n i nm tp (w, cr) = (w', cr')"
  shows "node_base_color (mat_nodes (materials w' ! length (materials w)) ! 1)
           = Some fallback_color"
proof -
  let ?mat = "length (materials w)"
  let ?w1 = "(py_print (Creating (i + 1) n nm) w)\<lparr>materials := materials w @ [built_material (stored_name env w nm)]\<rparr>"
  from setup_texture_frame [OF refl, where env = env and mat = ?mat and b = 1
      and t = 4 and nm = nm and tp = tp and w = ?w1] r
  have "length (materials w1) = Suc ?mat" "length (mat_nodes (materials w1 ! ?mat)) = 5"
    by (auto simp: world_of_def built_material_def)
  then have "node_base_color (mat_nodes (materials
      (update_node ?mat 1 (\<lambda>nd. nd\<lparr>node_base_color := Some fallback_color\<rparr>)
         (py_print (ErrorSettingUp tp c) w1)) ! ?mat) ! 1) = Some fallback_color"
    by (subst update_node_nth) simp_all
  with res r show ?thesis
    by (auto simp: create_material_unfold [OF new] Let_def)
qed

section \<open>Closed forms of one iteration\<close>

lemma setup_texture_placeholder:
  assumes nf: "find_image env (normpath env tp) (images w) 0 = None"
    and ne: "\<not> path_exists env (normpath env tp)"
    and ok: "\<forall>c. c \<noteq> Reload \<longrightarrow> \<not> raises env nm tp c"
    and mat: "materials w = ms @ [built_material sn]"
  shows "setup_texture env (length ms) 1 4 nm tp w =
     Inr (w\<lparr>materials := ms @ [textured_material sn (length (images w))
               (''Alpha'' \<in> set (outputs_of env ''ShaderNodeTexImage'')
                \<and> ''Alpha'' \<in> set (inputs_of env ''ShaderNodeBsdfPrincipled''))],
            images := images w @
              [placeholder_image env (map img_name (images w)) (normpath env tp)],
            stdout := stdout w @
              [CreatedPlaceholder
                 (host_name env (map img_name (images w)) (basename env (normpath env tp)))
                 (normpath env tp),
               FileMissing (normpath env tp), FilepathSet (normpath env tp)]\<rparr>)"
  using assms
  apply (simp add: setup_texture_def obtain_image_def Let_def case_prod_beta)
  apply (intro conjI impI world.equality)
  apply (simp_all add: update_node_materials links_new_materials textured_material_def
      built_material_def new_node_def placeholder_image_def eval_nat_numeral)
  done

lemma setup_texture_loaded:
  assumes nf: "find_image env (normpath env tp) (images w) 0 = None"
    and ex: "path_exists env (normpath env tp)"
    and ok: "\<forall>c. c \<noteq> Reload \<longrightarrow> \<not> raises env nm tp c"
    and mat: "materials w = ms @ [built_material sn]"
  shows "setup_texture env (length ms) 1 4 nm tp w =
     Inr (w\<lparr>materials := ms @ [textured_material sn (length (images w))
               (''Alpha'' \<in> set (outputs_of env ''ShaderNodeTexImage'')
                \<and> ''Alpha'' \<in> set (inputs_of env ''ShaderNodeBsdfPrincipled''))],
            images := images w @
              [loaded_image env (map img_name (images w)) (normpath env tp)
                 (\<not> raises env nm tp Reload)],
            stdout := stdout w @
              LoadedNewImage
                 (host_name env (map img_name (images w)) (basename env (normpath env tp)))
                 (normpath env tp)
              # (if raises env nm tp Reload then [CouldNotReload]
                 else [ImageReloaded,
                       FinalImageSize
                         (fst (img_size (loaded_image env (map img_name (images w))
                                 (normpath env tp) True)))
                         (snd (img_size (loaded_image env (map img_name (images w))
                                 (normpath env tp) True)))])
              @ [FilepathSet (normpath env tp)]\<rparr>)"
  using assms
  apply (simp add: setup_texture_def obtain_image_def try_reload_def Let_def case_prod_beta)
  apply (intro conjI impI world.equality)
  apply (simp_all add: update_node_materials links_new_materials textured_material_def
      built_material_def new_node_def loaded_image_def eval_nat_numeral)
  done

lemma create_material_placeholder:
  assumes new: "nm \<notin> set (map mat_name (materials w))"
    and nf: "find_image env (normpath env tp) (images w) 0 = None"
    and ne: "\<not> path_exists env (normpath env tp)"
    and ok: "\<forall>c. c \<noteq> Reload \<longrightarrow> \<not> raises env nm tp c"
  shows "create_material env n i nm tp (w, cr) =
     (w\<lparr>materials := materials w @ [textured_material (stored_name env w nm)
               (length (images w))
               (''Alpha'' \<in> set (outputs_of env ''ShaderNodeTexImage'')
                \<and> ''Alpha'' \<in> set (inputs_of env ''ShaderNodeBsdfPrincipled''))],
        images := images w @
          [placeholder_image env (map img_name (images w)) (normpath env tp)],
        stdout := stdout w @
          [Creating (i + 1) n nm,
           CreatedPlaceholder
             (host_name env (map img_name (images w)) (basename env (normpath env tp)))
             (normpath env tp),
           FileMissing (normpath env tp), FilepathSet (normpath env tp), NodesCreated 5,
           LinksCreated (if ''Alpha'' \<in> set (outputs_of env ''ShaderNodeTexImage'')
                \<and> ''Alpha'' \<in> set (inputs_of env ''ShaderNodeBsdfPrincipled'') then 5 else 4)]\<rparr>,
      cr @ [length (materials w)])"
proof -
  let ?w1 = "(py_print (Creating (i + 1) n nm) w)
      \<lparr>materials := materials w @ [built_material (stored_name env w nm)]\<rparr>"
  have "setup_texture env (length (materials w)) 1 4 nm tp ?w1 = Inr
     (?w1\<lparr>materials := materials w @ [textured_material (stored_name env w nm)
               (length (images ?w1))
               (''Alpha'' \<in> set (outputs_of env ''ShaderNodeTexImage'')
                \<and> ''Alpha'' \<in> set (inputs_of env ''ShaderNodeBsdfPrincipled''))],
            images := images ?w1 @
              [placeholder_image env (map img_name (images ?w1)) (normpath env tp)],
            stdout := stdout ?w1 @
              [CreatedPlaceholder
                 (host_name env (map img_name (images ?w1)) (basename env (normpath env tp)))
                 (normpath env tp),
               FileMissing (normpath env tp), FilepathSet (normpath env tp)]\<rparr>)"
    using nf ne ok by (intro setup_texture_placeholder) simp_all
  then show ?thesis
    by (simp add: create_material_unfold [OF new] Let_def py_print_def textured_material_def)
qed

lemma create_material_loaded:
  assumes new: "nm \<notin> set (map mat_name (materials w))"
    and nf: "find_image env (normpath env tp) (images w) 0 = None"
    and ex: "path_exists env (normpath env tp)"
    and ok: "\<forall>c. c \<noteq> Reload \<longrightarrow> \<not> raises env nm tp c"
  shows "create_material env n i nm tp (w, cr) =
     (w\<lparr>materials := materials w @ [textured_material (stored_name env w nm)
               (length (images w))
               (''Alpha'' \<in> set (outputs_of env ''ShaderNodeTexImage'')
                \<and> ''Alpha'' \<in> set (inputs_of env ''ShaderNodeBsdfPrincipled''))],
        images := images w @
          [loaded_image env (map img_name (images w)) (normpath env tp)
             (\<not> raises env nm tp Reload)],
        stdout := stdout w @
          Creating (i + 1) n nm
          # LoadedNewImage
              (host_name env (map img_name (images w)) (basename env (normpath env tp)))
              (normpath env tp)
          # (if raises env nm tp Reload then [CouldNotReload]
             else [ImageReloaded,
                   FinalImageSize
                     (fst (img_size (loaded_image env (map img_name (images w))
                             (normpath env tp) True)))
                     (snd (img_size (loaded_image env (map img_name (images w))
                             (normpath env tp) True)))])
          @ [FilepathSet (normpath env tp), NodesCreated 5,
           LinksCreated (if ''Alpha'' \<in> set (outputs_of env ''ShaderNodeTexImage'')
                \<and> ''Alpha'' \<in> set (inputs_of env ''ShaderNodeBsdfPrincipled'') then 5 else 4)]\<rparr>,
      cr @ [length (materials w)])"
proof -
  let ?w1 = "(py_print (Creating (i + 1) n nm) w)
      \<lparr>materials := materials w @ [built_material (stored_name env w nm)]\<rparr>"
  have "setup_texture env (length (materials w)) 1 4 nm tp ?w1 = Inr
     (?w1\<lparr>materials := materials w @ [textured_material (stored_name env w nm)
               (length (images ?w1))
               (''Alpha'' \<in> set (outputs_of env ''ShaderNodeTexImage'')
                \<and> ''Alpha'' \<in> set (inputs_of env ''ShaderNodeBsdfPrincipled''))],
            images := images ?w1 @
              [loaded_image env (map img_name (images ?w1)) (normpath env tp)
                 (\<not> raises env nm tp Reload)],
            stdout := stdout ?w1 @
              LoadedNewImage
                 (host_name env (map img_name (images ?w1)) (basename env (normpath env tp)))
                 (normpath env tp)
              # (if raises env nm tp Reload then [CouldNotReload]
                 else [ImageReloaded,
                       FinalImageSize
                         (fst (img_size (loaded_image env (map img_name (images ?w1))
                                 (normpath env tp) True)))
                         (snd (img_size (loaded_image env (map img_name (images ?w1))
                                 (normpath env tp) True)))])
              @ [FilepathSet (normpath env tp)]\<rparr>)"
    using nf ex ok by (intro setup_texture_loaded) simp_all
  then show ?thesis
    by (simp add: create_material_unfold [OF new] Let_def py_print_def textured_material_def)
qed

section \<open>The two loops\<close>

lemma create_loop_append:
  "create_loop env n i (xs @ ys) st =
     create_loop env n (i + length xs) ys (create_loop env n i xs st)"
proof (induction xs arbitrary: i st)
  case Nil
  then show ?case by simp
next
  case (Cons p xs)
  obtain nm tp where p: "p = (nm, tp)" by (cases p)
  show ?case
    using Cons.IH [of "Suc i" "create_material env n i nm tp st"] by (simp add: p)
qed

lemma create_material_cases:
  obtains (skip) "nm \<in> set (map mat_name (materials w))"
      "create_material env n i nm tp (w, cr) =
         (py_print (AlreadyExists nm) (py_print (Creating (i + 1) n nm) w), cr)"
    | (new) w' m' where "nm \<notin> set (map mat_name (materials w))"
      "create_material env n i nm tp (w, cr) = (w', cr @ [length (materials w)])"
      "materials w' = materials w @ [m']" "mat_name m' = stored_name env w nm"
      "\<not> mat_asset m'" "length (mat_nodes m') = 5"
      "objects w' = objects w" "active_object w' = active_object w"
      "length (images w) \<le> length (images w')" "\<exists>s. stdout w' = stdout w @ s"
proof (cases "nm \<in> set (map mat_name (materials w))")
  case True
  then show ?thesis using skip create_material_skip by blast
next
  case False
  obtain w' cr' where r: "create_material env n i nm tp (w, cr) = (w', cr')"
    by (cases "create_material env n i nm tp (w, cr)")
  from create_material_new [OF False r] r show ?thesis
    using new [OF False] by blast
qed

text \<open>What one run of the first loop keeps and what it adds.\<close>

lemma create_loop_frame:
  assumes "create_loop env n i ps (w, cr) = (w', cr')"
  shows "(\<exists>ms. materials w' = materials w @ ms)
     \<and> objects w' = objects w \<and> active_object w' = active_object w
     \<and> length (images w) \<le> length (images w')
     \<and> (\<exists>s. stdout w' = stdout w @ s)
     \<and> (\<exists>new. cr' = cr @ new
            \<and> (\<forall>r \<in> set new. length (materials w) \<le> r \<and> r < length (materials w')))"
  using assms
proof (induction ps arbitrary: i w cr)
  case Nil
  then show ?case by simp
next
  case (Cons p ps)
  obtain nm tp where p: "p = (nm, tp)" by (cases p)
  show ?case
  proof (cases rule: create_material_cases [of nm w env n i tp cr])
    case skip
    with Cons.prems p
    have "create_loop env n (Suc i) ps
            (py_print (AlreadyExists nm) (py_print (Creating (i + 1) n nm) w), cr) = (w', cr')"
      by simp
    from Cons.IH [OF this] show ?thesis by auto
  next
    case (new w1 m1)
    with Cons.prems p
    have "create_loop env n (Suc i) ps (w1, cr @ [length (materials w)]) = (w', cr')"
      by simp
    from Cons.IH [OF this] new show ?thesis
      by (fastforce simp: nth_append)
  qed
qed


lemma card_new_names:
  assumes "finite R"
  shows "card (insert x R - S) = (if x \<in> S then 0 else 1) + card (R - insert x S)"
proof (cases "x \<in> S")
  case True
  then have e1: "insert x R - S = R - S" and e2: "R - insert x S = R - S" by auto
  show ?thesis unfolding e1 e2 using True by simp
next
  case False
  then have e1: "insert x R - S = insert x (R - S)" by auto
  have e2: "R - insert x S = (R - S) - {x}" by auto
  have "finite (R - S)" using assms by simp
  then have "card (insert x (R - S)) = Suc (card ((R - S) - {x}))"
    by (rule card.insert_remove)
  then show ?thesis unfolding e1 e2 using False by simp
qed

text \<open>The number of materials that a run of the first loop creates is at most the number
  of pairs.\<close>

lemma create_loop_length:
  assumes "create_loop env n i ps (w, cr) = (w', cr')"
  shows "length cr' \<le> length cr + length ps"
  using assms
proof (induction ps arbitrary: i w cr)
  case Nil
  then show ?case by simp
next
  case (Cons p ps)
  obtain nm tp where p: "p = (nm, tp)" by (cases p)
  show ?case
  proof (cases rule: create_material_cases [of nm w env n i tp cr])
    case skip
    with Cons.prems p
    have "create_loop env n (Suc i) ps
            (py_print (AlreadyExists nm) (py_print (Creating (i + 1) n nm) w), cr) = (w', cr')"
      by simp
    from Cons.IH [OF this] show ?thesis by simp
  next
    case (new w1 m1)
    with Cons.prems p
    have "create_loop env n (Suc i) ps (w1, cr @ [length (materials w)]) = (w', cr')"
      by simp
    from Cons.IH [OF this] show ?thesis by simp
  qed
qed

section \<open>Names within the host's limit\<close>

lemma truncate_utf8_fits:
  "utf8_length s \<le> n \<Longrightarrow> truncate_utf8 n s = s"
  by (induction s arbitrary: n) (simp_all add: utf8_length_def)

lemma host_name_free:
  assumes "utf8_length nm \<le> max_name_bytes" and "nm \<noteq> []" and "nm \<notin> set taken"
  shows "host_name env taken nm = nm"
  using assms by (simp add: host_name_def truncate_utf8_fits)

lemma utf8_length_le: "utf8_length s \<le> 2 * length s"
  by (induction s) (simp_all add: utf8_length_def utf8_size_def)

lemma host_name_short:
  assumes "length nm \<le> 31" and "nm \<noteq> []" and "nm \<notin> set taken"
  shows "host_name env taken nm = nm"
proof -
  have "utf8_length nm \<le> 2 * length nm" by (rule utf8_length_le)
  with assms(1) have "utf8_length nm \<le> max_name_bytes" by (simp add: max_name_bytes_def)
  then show ?thesis using assms(2,3) by (rule host_name_free)
qed

lemma material_names_nonempty:
  "nm \<in> set (material_names_of a) \<Longrightarrow> nm \<noteq> []"
  by (auto simp: material_names_of_def)

text \<open>
  When every name fits the host's limit, the materials after the loop bear the names they
  bore before and the names of the pairs, and each new name gave one material.
\<close>

lemma create_loop_count:
  assumes "create_loop env n i ps (w, cr) = (w', cr')"
    and "\<forall>nm \<in> set (map fst ps). nm \<noteq> [] \<and> utf8_length nm \<le> max_name_bytes"
  shows "set (map mat_name (materials w')) = set (map mat_name (materials w)) \<union> set (map fst ps)
     \<and> length cr' = length cr + card (set (map fst ps) - set (map mat_name (materials w)))"
  using assms
proof (induction ps arbitrary: i w cr)
  case Nil
  then show ?case by simp
next
  case (Cons p ps)
  obtain nm tp where p: "p = (nm, tp)" by (cases p)
  from Cons.prems(2) p have fits: "nm \<noteq> []" "utf8_length nm \<le> max_name_bytes"
    and rest: "\<forall>nm \<in> set (map fst ps). nm \<noteq> [] \<and> utf8_length nm \<le> max_name_bytes"
    by simp_all
  define S where "S = set (map mat_name (materials w))"
  define R where "R = set (map fst ps)"
  have card: "card (insert nm R - S) = (if nm \<in> S then 0 else 1) + card (R - insert nm S)"
    by (rule card_new_names) (simp add: R_def)
  have ps: "set (map fst (p # ps)) = insert nm R" by (simp add: p R_def)
  show ?case
  proof (cases rule: create_material_cases [of nm w env n i tp cr])
    case skip
    with Cons.prems p
    have "create_loop env n (Suc i) ps
            (py_print (AlreadyExists nm) (py_print (Creating (i + 1) n nm) w), cr) = (w', cr')"
      by simp
    from Cons.IH [OF this rest]
    have a: "set (map mat_name (materials w')) = S \<union> R"
      and b: "length cr' = length cr + card (R - S)"
      by (simp_all add: S_def R_def)
    from skip(1) have nm: "nm \<in> S" by (simp add: S_def)
    then have "insert nm S = S" by auto
    with card nm have "card (insert nm R - S) = card (R - S)" by simp
    moreover from nm have "S \<union> insert nm R = S \<union> R" by auto
    ultimately show ?thesis unfolding ps S_def [symmetric] using a b by simp
  next
    case (new w1 m1)
    with Cons.prems p
    have st1: "create_loop env n (Suc i) ps (w1, cr @ [length (materials w)]) = (w', cr')"
      by simp
    have "stored_name env w nm = nm"
      using fits(2,1) new(1) by (rule host_name_free)
    with new(4) have m1: "mat_name m1 = nm" by simp
    from Cons.IH [OF st1 rest] new(3) m1
    have a: "set (map mat_name (materials w')) = insert nm S \<union> R"
      and b: "length cr' = Suc (length cr) + card (R - insert nm S)"
      by (simp_all add: S_def R_def)
    from new(1) have nm: "nm \<notin> S" by (simp add: S_def)
    with card have "card (insert nm R - S) = Suc (card (R - insert nm S))" by simp
    moreover have "S \<union> insert nm R = insert nm S \<union> R" by auto
    ultimately show ?thesis unfolding ps S_def [symmetric] using a b by simp
  qed
qed




lemma update_material_asset_proj [simp]:
  "mat_name (materials (update_material m (\<lambda>x. x\<lparr>mat_asset := a\<rparr>) w) ! j)
     = mat_name (materials w ! j)"
  "mat_nodes (materials (update_material m (\<lambda>x. x\<lparr>mat_asset := a\<rparr>) w) ! j)
     = mat_nodes (materials w ! j)"
  "mat_links (materials (update_material m (\<lambda>x. x\<lparr>mat_asset := a\<rparr>) w) ! j)
     = mat_links (materials w ! j)"
  "mat_use_nodes (materials (update_material m (\<lambda>x. x\<lparr>mat_asset := a\<rparr>) w) ! j)
     = mat_use_nodes (materials w ! j)"
  "j \<noteq> m \<Longrightarrow> materials (update_material m (\<lambda>x. x\<lparr>mat_asset := a\<rparr>) w) ! j
     = materials w ! j"
  "length (materials (update_material m f w)) = length (materials w)"
  by (simp_all add: nth_list_update_proj)

lemma mark_assets_frame:
  "length (materials (mark_assets env cr w)) = length (materials w)
   \<and> (\<forall>j. j \<notin> set cr \<longrightarrow> materials (mark_assets env cr w) ! j = materials w ! j)
   \<and> (\<forall>j. mat_name (materials (mark_assets env cr w) ! j) = mat_name (materials w ! j)
          \<and> mat_nodes (materials (mark_assets env cr w) ! j) = mat_nodes (materials w ! j)
          \<and> mat_links (materials (mark_assets env cr w) ! j) = mat_links (materials w ! j)
          \<and> mat_use_nodes (materials (mark_assets env cr w) ! j)
              = mat_use_nodes (materials w ! j))
   \<and> images (mark_assets env cr w) = images w
   \<and> objects (mark_assets env cr w) = objects w
   \<and> (\<exists>s. stdout (mark_assets env cr w) = stdout w @ s)"
proof (induction cr arbitrary: w)
  case Nil
  then show ?case by simp
next
  case (Cons mat rest)
  let ?w0 = "w\<lparr>active_object := None\<rparr>"
  let ?nm = "mat_name (materials w ! mat)"
  let ?w1 = "if \<not> asset_mark_raises env ?nm
     then py_print (MarkedAsset ?nm) (update_material mat (\<lambda>m. m\<lparr>mat_asset := True\<rparr>) ?w0)
     else if \<not> ops_asset_mark_raises env ?nm
       then py_print (MarkedAssetAlt ?nm)
              (update_material mat (\<lambda>m. m\<lparr>mat_asset := True\<rparr>)
                 (py_print (CouldNotMark ?nm) ?w0))
       else py_print (AltMarkFailed ?nm) (py_print (CouldNotMark ?nm) ?w0)"
  have step: "mark_assets env (mat # rest) w = mark_assets env rest ?w1"
    by (simp add: Let_def)
  have w1: "length (materials ?w1) = length (materials w)"
    "\<And>j. j \<noteq> mat \<Longrightarrow> materials ?w1 ! j = materials w ! j"
    "\<And>j. mat_name (materials ?w1 ! j) = mat_name (materials w ! j)"
    "\<And>j. mat_nodes (materials ?w1 ! j) = mat_nodes (materials w ! j)"
    "\<And>j. mat_links (materials ?w1 ! j) = mat_links (materials w ! j)"
    "\<And>j. mat_use_nodes (materials ?w1 ! j) = mat_use_nodes (materials w ! j)"
    "images ?w1 = images w" "objects ?w1 = objects w"
    "\<exists>s. stdout ?w1 = stdout w @ s"
    by (simp_all del: update_material_proj(1))
  from Cons.IH [of ?w1] w1 show ?case unfolding step
    by (auto simp del: mark_assets.simps)
qed

lemma create_materials_from_files_run:
  assumes "read_lines env inp = Lines a" "read_lines env pth = Lines b"
    and "material_names_of a \<noteq> []" "texture_paths_of b \<noteq> []"
  shows "create_materials_from_files env inp pth w =
     (let names = material_names_of a; paths = texture_paths_of b;
          m = min (length names) (length paths);
          w1 = (if length names \<noteq> length paths
                then py_print (WarnCountMismatch (length names) (length paths)) w else w);
          st = create_loop env m 0 (zip (take m names) (take m paths)) (w1, [])
      in (Success (length (snd st)), mark_assets env (snd st) (fst st)))"
  using assms
  by (cases "length (material_names_of a) = length (texture_paths_of b)")
     (simp_all add: create_materials_from_files_def Let_def case_prod_beta)

section \<open>The sample inputs evaluated\<close>

lemma demo_env_simps:
  "read_lines demo_env ''names.txt'' = Lines names_file"
  "read_lines demo_env ''paths.txt'' = Lines paths_file"
  "read_lines demo_env ''blank.txt'' = Lines blank_file"
  "read_lines demo_env ''long.txt'' = Lines long_names_file"
  "read_lines demo_env ''folder'' = ReadError ''Is a directory''"
  "read_lines demo_env ''missing.txt'' = FileNotFound"
  "normpath demo_env p = p" "basename demo_env p = p" "path_exists demo_env p = False"
  "host_size demo_env im = (if img_source im = ''GENERATED'' then img_size im else (0, 0))"
  "unique_name demo_env taken base = base @ ''.001''"
  "outputs_of demo_env ''ShaderNodeTexImage'' = [''Color'', ''Alpha'']"
  "inputs_of demo_env ''ShaderNodeBsdfPrincipled'' = [''Base Color'', ''Alpha'']"
  "raises demo_env nm tp c = False"
  "asset_mark_raises demo_env nm = False"
  by (simp_all add: demo_env_def)

lemma demo_names: "material_names_of names_file = [''wood'', ''stone'', ''wood'', ''glass'']"
  by (simp add: names_file_def material_names_of_def strip_def strip_where_def isspace_def)

lemma demo_paths:
  "texture_paths_of paths_file = [''a.png'', ''b.png'', ''c.png'', ''d.png'', ''e.png'']"
  by (simp add: paths_file_def strip_def strip_where_def isspace_def strip_chars_def
      quote_chars_def)

lemma demo_blank: "material_names_of blank_file = []" "texture_paths_of blank_file = []"
  by (simp_all add: blank_file_def material_names_of_def strip_def strip_where_def isspace_def)

lemma demo_placeholder:
  assumes "length p \<le> 31" and "p \<noteq> []" and "p \<notin> set taken"
  shows "placeholder_image demo_env taken p = placeholder p"
  using host_name_short [OF assms, of demo_env]
  by (simp add: placeholder_image_def set_filepath_def set_source_def resized_def
      demo_env_simps placeholder_def)


section \<open>The outcomes of create_materials_from_files\<close>

lemma create_materials_from_files_cases:
  obtains (failure) msg where "create_materials_from_files env inp pth w = (Failure msg, w)"
    | (run) a b where "read_lines env inp = Lines a" "read_lines env pth = Lines b"
        "material_names_of a \<noteq> []" "texture_paths_of b \<noteq> []"
proof (cases "read_lines env inp")
  case FileNotFound
  then show ?thesis using failure by (simp add: create_materials_from_files_def)
next
  case (ReadError e)
  then show ?thesis using failure by (simp add: create_materials_from_files_def)
next
  case a: (Lines a)
  show ?thesis
  proof (cases "read_lines env pth")
    case FileNotFound
    with a show ?thesis using failure by (simp add: create_materials_from_files_def)
  next
    case (ReadError e)
    with a show ?thesis using failure by (simp add: create_materials_from_files_def)
  next
    case b: (Lines b)
    show ?thesis
    proof (cases "material_names_of a = [] \<or> texture_paths_of b = []")
      case True
      with a b have "\<exists>msg. create_materials_from_files env inp pth w = (Failure msg, w)"
        by (auto simp: create_materials_from_files_def Let_def)
      then show ?thesis using failure by blast
    next
      case False
      with a b show ?thesis using run by simp
    qed
  qed
qed

lemma demo_loop:
  "create_loop demo_env 4 0
     [(''wood'', ''a.png''), (''stone'', ''b.png''), (''wood'', ''c.png''), (''glass'', ''d.png'')]
     (py_print (WarnCountMismatch 4 5) empty_world, []) =
   (\<lparr>materials = [textured_material ''wood'' 0 True, textured_material ''stone'' 1 True,
                   textured_material ''glass'' 2 True],
      images = [placeholder ''a.png'', placeholder ''b.png'', placeholder ''d.png''],
      objects = [], active_object = None,
      stdout = [WarnCountMismatch 4 5,
                Creating 1 4 ''wood'', CreatedPlaceholder ''a.png'' ''a.png'',
                FileMissing ''a.png'', FilepathSet ''a.png'', NodesCreated 5, LinksCreated 5,
                Creating 2 4 ''stone'', CreatedPlaceholder ''b.png'' ''b.png'',
                FileMissing ''b.png'', FilepathSet ''b.png'', NodesCreated 5, LinksCreated 5,
                Creating 3 4 ''wood'', AlreadyExists ''wood'',
                Creating 4 4 ''glass'', CreatedPlaceholder ''d.png'' ''d.png'',
                FileMissing ''d.png'', FilepathSet ''d.png'', NodesCreated 5, LinksCreated 5]\<rparr>,
    [0, 1, 2])"
  by (simp add: create_material_placeholder create_material_skip demo_env_simps
      host_name_short demo_placeholder
      empty_world_def py_print_def textured_material_def placeholder_def)

lemma demo_run:
  "create_materials_from_files demo_env ''names.txt'' ''paths.txt'' empty_world =
   (Success 3,
    \<lparr>materials = [(textured_material ''wood'' 0 True)\<lparr>mat_asset := True\<rparr>,
                   (textured_material ''stone'' 1 True)\<lparr>mat_asset := True\<rparr>,
                   (textured_material ''glass'' 2 True)\<lparr>mat_asset := True\<rparr>],
      images = [placeholder ''a.png'', placeholder ''b.png'', placeholder ''d.png''],
      objects = [], active_object = None,
      stdout = [WarnCountMismatch 4 5,
                Creating 1 4 ''wood'', CreatedPlaceholder ''a.png'' ''a.png'',
                FileMissing ''a.png'', FilepathSet ''a.png'', NodesCreated 5, LinksCreated 5,
                Creating 2 4 ''stone'', CreatedPlaceholder ''b.png'' ''b.png'',
                FileMissing ''b.png'', FilepathSet ''b.png'', NodesCreated 5, LinksCreated 5,
                Creating 3 4 ''wood'', AlreadyExists ''wood'',
                Creating 4 4 ''glass'', CreatedPlaceholder ''d.png'' ''d.png'',
                FileMissing ''d.png'', FilepathSet ''d.png'', NodesCreated 5, LinksCreated 5,
                MarkedAsset ''wood'', MarkedAsset ''stone'', MarkedAsset ''glass'']\<rparr>)"
proof -
  have "create_materials_from_files demo_env ''names.txt'' ''paths.txt'' empty_world =
     (let names = material_names_of names_file; paths = texture_paths_of paths_file;
          m = min (length names) (length paths);
          w1 = (if length names \<noteq> length paths
                then py_print (WarnCountMismatch (length names) (length paths)) empty_world
                else empty_world);
          st = create_loop demo_env m 0 (zip (take m names) (take m paths)) (w1, [])
      in (Success (length (snd st)), mark_assets demo_env (snd st) (fst st)))"
    by (rule create_materials_from_files_run) (simp_all add: demo_env_simps demo_names demo_paths)
  then have "create_materials_from_files demo_env ''names.txt'' ''paths.txt'' empty_world =
     (Success (length (snd (create_loop demo_env 4 0
        [(''wood'', ''a.png''), (''stone'', ''b.png''), (''wood'', ''c.png''),
         (''glass'', ''d.png'')]
        (py_print (WarnCountMismatch 4 5) empty_world, [])))),
      mark_assets demo_env (snd (create_loop demo_env 4 0
        [(''wood'', ''a.png''), (''stone'', ''b.png''), (''wood'', ''c.png''),
         (''glass'', ''d.png'')]
        (py_print (WarnCountMismatch 4 5) empty_world, [])))
       (fst (create_loop demo_env 4 0
        [(''wood'', ''a.png''), (''stone'', ''b.png''), (''wood'', ''c.png''),
         (''glass'', ''d.png'')]
        (py_print (WarnCountMismatch 4 5) empty_world, []))))"
    unfolding demo_names demo_paths Let_def
    by (simp del: create_loop.simps add: eval_nat_numeral)
  then show ?thesis
    unfolding demo_loop
    by (simp add: Let_def demo_env_simps py_print_def update_material_def
        textured_material_def)
qed

section \<open>A name beyond the host's limit\<close>










section \<open>Textures across the loops\<close>

lemma texture_of_Some:
  "texture_of w q = Some v \<longleftrightarrow>
     (\<exists>k < length (images w). node_image (mat_nodes (materials w ! q) ! 4) = Some k
        \<and> img_filepath (images w ! k) = v)"
  by (auto simp: texture_of_def split: option.splits)

lemma create_material_old_material:
  assumes "q < length (materials w)"
  shows "materials (fst (create_material env n i nm tp (w, cr))) ! q = materials w ! q"
    and "q < length (materials (fst (create_material env n i nm tp (w, cr))))"
    and "length (images w) \<le> length (images (fst (create_material env n i nm tp (w, cr))))"
  using assms
  by (cases rule: create_material_cases [of nm w env n i tp cr]; simp add: nth_append)+

lemma create_material_keeps_texture:
  assumes v: "normpath env v = v" and q: "q < length (materials w)"
    and t: "texture_of w q = Some v"
  shows "texture_of (fst (create_material env n i nm tp (w, cr))) q = Some v"
proof -
  let ?w' = "fst (create_material env n i nm tp (w, cr))"
  from t obtain k where k: "k < length (images w)"
    "node_image (mat_nodes (materials w ! q) ! 4) = Some k" "img_filepath (images w ! k) = v"
    unfolding texture_of_Some by blast
  have "img_filepath (images ?w' ! k) = v"
    using v k(1,3) by (rule create_material_image_stable)
  moreover have "k < length (images ?w')"
    using create_material_old_material(3) [OF q, of env n i nm tp cr] k(1) by simp
  moreover have "materials ?w' ! q = materials w ! q"
    by (rule create_material_old_material(1) [OF q])
  ultimately show ?thesis unfolding texture_of_Some using k(2) by auto
qed

lemma create_loop_keeps_texture:
  assumes v: "normpath env v = v" and q: "q < length (materials w)"
    and t: "texture_of w q = Some v"
  shows "q < length (materials (fst (create_loop env n i ps (w, cr))))
     \<and> materials (fst (create_loop env n i ps (w, cr))) ! q = materials w ! q
     \<and> texture_of (fst (create_loop env n i ps (w, cr))) q = Some v"
  using q t
proof (induction ps arbitrary: i w cr)
  case Nil
  then show ?case by simp
next
  case (Cons p ps)
  obtain nm tp where p: "p = (nm, tp)" by (cases p)
  obtain w1 cr1 where s: "create_material env n i nm tp (w, cr) = (w1, cr1)"
    by (cases "create_material env n i nm tp (w, cr)")
  have w1: "q < length (materials w1)" "materials w1 ! q = materials w ! q"
    "texture_of w1 q = Some v"
    using create_material_old_material(1,2) [OF Cons.prems(1), of env n i nm tp cr]
      create_material_keeps_texture [OF v Cons.prems, of n i nm tp cr] s
    by simp_all
  from Cons.IH [OF w1(1,3), of "Suc i" cr1] w1(2) show ?case
    by (simp add: p s)
qed

lemma mark_assets_keeps_texture:
  "texture_of (mark_assets env cr w) q = texture_of w q"
proof -
  from mark_assets_frame [of env cr w]
  have a: "images (mark_assets env cr w) = images w"
    and b: "mat_nodes (materials (mark_assets env cr w) ! q) = mat_nodes (materials w ! q)"
    by blast+
  show ?thesis unfolding texture_of_def a b ..
qed

lemma create_material_makes_texture:
  assumes new: "nm \<notin> set (map mat_name (materials w))"
    and fits: "utf8_length nm \<le> max_name_bytes" "nm \<noteq> []"
    and ok: "\<forall>c. c \<noteq> Reload \<longrightarrow> \<not> raises env nm tp c"
  shows "length (materials w) < length (materials (fst (create_material env n i nm tp (w, cr))))
     \<and> mat_name (materials (fst (create_material env n i nm tp (w, cr))) ! length (materials w))
         = nm
     \<and> texture_of (fst (create_material env n i nm tp (w, cr))) (length (materials w))
         = Some (normpath env tp)"
proof -
  obtain w' cr' where r: "create_material env n i nm tp (w, cr) = (w', cr')"
    by (cases "create_material env n i nm tp (w, cr)")
  have "stored_name env w nm = nm"
    using fits new by (rule host_name_free)
  with create_material_new(2) [OF new r] obtain m'
    where "materials w' = materials w @ [m']" "mat_name m' = nm" by auto
  moreover from create_material_textured [OF new ok r]
  have "texture_of w' (length (materials w)) = Some (normpath env tp)"
    unfolding texture_of_Some .
  ultimately show ?thesis by (simp add: r)
qed


lemma nonblank_nth:
  "i < length (material_names_of a) \<Longrightarrow>
     material_names_of a ! i = strip (filter (\<lambda>l. strip l \<noteq> []) a ! i)"
  "i < length (texture_paths_of b) \<Longrightarrow>
     texture_paths_of b ! i = strip_chars quote_chars (strip (filter (\<lambda>l. strip l \<noteq> []) b ! i))"
  by (simp_all add: material_names_of_def texture_paths_of_eq)

section \<open>Nodes across the texture set-up\<close>

lemma reload_env_simps:
  "normpath reload_env p = p" "basename reload_env p = p" "path_exists reload_env p = True"
  "host_size reload_env im = (512, 256)"
  "outputs_of reload_env ''ShaderNodeTexImage'' = [''Color'', ''Alpha'']"
  "inputs_of reload_env ''ShaderNodeBsdfPrincipled'' = [''Base Color'', ''Alpha'']"
  "raises reload_env nm tp c = (c = Reload)"
  by (simp_all add: reload_env_def demo_env_def)

lemma load_error_env_simps:
  "read_lines load_error_env ''names.txt'' = Lines names_file"
  "read_lines load_error_env ''paths.txt'' = Lines paths_file"
  "normpath load_error_env p = p" "basename load_error_env p = p"
  "path_exists load_error_env p = True"
  "raises load_error_env nm tp c = (c = LoadImage)"
  by (simp_all add: load_error_env_def demo_env_def)

lemma alpha_error_env_simps:
  "normpath alpha_error_env p = p" "basename alpha_error_env p = p"
  "path_exists alpha_error_env p = False"
  "outputs_of alpha_error_env ''ShaderNodeTexImage'' = [''Color'', ''Alpha'']"
  "inputs_of alpha_error_env ''ShaderNodeBsdfPrincipled'' = [''Base Color'', ''Alpha'']"
  "raises alpha_error_env nm tp c = (c = LinkAlpha)"
  by (simp_all add: alpha_error_env_def demo_env_def)

lemma find_image_None:
  "\<forall>im \<in> set imgs. img_filepath im = [] \<or> normpath env (img_filepath im) \<noteq> np \<Longrightarrow>
     find_image env np imgs k = None"
  by (induction imgs arbitrary: k) auto

lemma update_node_field_proj:
  assumes "\<And>x. p (f x) = p x"
  shows "p (mat_nodes (materials (update_node m k f w) ! j) ! k')
     = p (mat_nodes (materials w ! j) ! k')"
proof (cases "m < length (materials w) \<and> j = m")
  case True
  then have "mat_nodes (materials (update_node m k f w) ! j)
      = (mat_nodes (materials w ! m))[k := f (mat_nodes (materials w ! m) ! k)]"
    by (simp add: update_node_materials)
  with True show ?thesis using assms
    by (simp add: nth_list_update_proj)
next
  case False
  then have "materials (update_node m k f w) ! j = materials w ! j"
    by (auto simp: update_node_materials list_update_beyond not_less)
  then show ?thesis by simp
qed

lemma setup_texture_keeps_nodes:
  "node_type (mat_nodes (materials (world_of (setup_texture env mat b t nm tp w)) ! j) ! k)
     = node_type (mat_nodes (materials w ! j) ! k)
   \<and> node_base_color
        (mat_nodes (materials (world_of (setup_texture env mat b t nm tp w)) ! j) ! k)
     = node_base_color (mat_nodes (materials w ! j) ! k)"
proof (cases "obtain_image env nm tp (normpath env tp) w")
  case (Inl e)
  obtain c w1 where e: "e = (c, w1)" by (cases e)
  from obtain_image_InlD [OF Inl [unfolded e]] Inl e show ?thesis
    by (auto simp: setup_texture_def world_of_def)
next
  case (Inr p)
  obtain i w1 where p: "p = (i, w1)" by (cases p)
  from obtain_image_InrD [OF Inr [unfolded p]]
  have w1: "materials w1 = materials w" by auto
  show ?thesis using w1 Inr p
    by (auto simp: setup_texture_def world_of_def Let_def update_node_field_proj)
qed

text \<open>A texture set-up that ran to its end met no raising call on its way.\<close>

lemma setup_texture_Inr_calls:
  assumes "setup_texture env mat b t nm tp w = Inr w'"
    and "c \<in> set (calls_on_path env tp w)" and "c \<noteq> Reload"
  shows "\<not> raises env nm tp c"
  using assms
  by (auto simp: setup_texture_def obtain_image_def calls_on_path_def Let_def case_prod_beta
           split: option.splits if_splits sum.splits)

lemma setup_texture_raises:
  assumes "c \<in> set (calls_on_path env tp w)" and "c \<noteq> Reload" and "raises env nm tp c"
  shows "\<exists>c' w'. setup_texture env mat b t nm tp w = Inl (c', w')"
proof (cases "setup_texture env mat b t nm tp w")
  case (Inl e)
  then show ?thesis by (cases e) simp
next
  case (Inr w')
  from setup_texture_Inr_calls [OF Inr assms(1,2)] assms(3) show ?thesis by simp
qed

lemma setup_texture_Inl_raises:
  assumes "setup_texture env mat b t nm tp w = Inl (c, w')"
  shows "raises env nm tp c"
  using assms
  by (auto simp: setup_texture_def obtain_image_def Let_def case_prod_beta
           split: option.splits if_splits sum.splits)


section \<open>The grid of planes\<close>

lemma nth_map_snoc_length:
  "(map f xs @ [y]) ! length xs = y"
  "(map f xs @ [y])[length xs := z] = map f xs @ [z]"
  using nth_append_length [of "map f xs" y "[]"] list_update_length [of "map f xs" y "[]" z]
  by simp_all

lemma others_last:
  "length xs = n \<Longrightarrow> others n (xs @ [y]) = xs"
  by (simp add: others_def)

lemma place_plane_eq:
  "place_plane env gw i material w =
     w\<lparr>objects := map (\<lambda>ob. ob\<lparr>obj_selected := False\<rparr>) (objects w) @
          [\<lparr>obj_name = host_name env (map obj_name (objects w))
                         (mat_name (materials w ! material)),
            obj_data_name = host_name env (map obj_data_name (objects w))
                         (''Plane_'' @ mat_name (materials w ! material)),
            obj_size = plane_size,
            obj_location = (real (i mod gw) * grid_spacing, real (i div gw) * grid_spacing, 0),
            obj_materials = [material], obj_selected = True\<rparr>],
       active_object := Some (length (objects w)),
       stdout := stdout w @
          [CreatedPlane (mat_name (materials w ! material)) (real (i mod gw) * grid_spacing)
             (real (i div gw) * grid_spacing) 0]\<rparr>"
  by (simp add: place_plane_def primitive_plane_add_def update_object_def py_print_def Let_def
      nth_map_snoc_length others_last comp_def)

lemma placement_deselect [simp]:
  "placement (ob\<lparr>obj_selected := s\<rparr>) = placement ob"
  by (simp add: placement_def)

lemma planes_loop_objects:
  "materials (planes_loop env gw i ms w) = materials w
   \<and> length (objects (planes_loop env gw i ms w)) = length (objects w) + length ms
   \<and> (\<forall>j < length (objects w).
         placement (objects (planes_loop env gw i ms w) ! j) = placement (objects w ! j))
   \<and> (\<forall>k < length ms.
         placement (objects (planes_loop env gw i ms w) ! (length (objects w) + k)) =
           (plane_size,
            (real ((i + k) mod gw) * grid_spacing, real ((i + k) div gw) * grid_spacing, 0),
            [ms ! k]))"
proof (induction ms arbitrary: i w)
  case Nil
  then show ?case by simp
next
  case (Cons m ms)
  let ?w1 = "place_plane env gw i m w"
  have mats: "materials ?w1 = materials w" by (simp add: place_plane_eq)
  have len: "length (objects ?w1) = Suc (length (objects w))" by (simp add: place_plane_eq)
  have old: "\<forall>j < length (objects w). placement (objects ?w1 ! j) = placement (objects w ! j)"
    by (simp add: place_plane_eq nth_append)
  have new: "placement (objects ?w1 ! length (objects w)) =
      (plane_size, (real (i mod gw) * grid_spacing, real (i div gw) * grid_spacing, 0), [m])"
    by (simp add: place_plane_eq nth_append placement_def)
  note IH = Cons.IH [of "Suc i" ?w1]
  from IH have A: "materials (planes_loop env gw (Suc i) ms ?w1) = materials w"
    and B: "length (objects (planes_loop env gw (Suc i) ms ?w1))
              = Suc (length (objects w)) + length ms"
    and C: "\<forall>j < Suc (length (objects w)).
         placement (objects (planes_loop env gw (Suc i) ms ?w1) ! j) = placement (objects ?w1 ! j)"
    and D: "\<forall>k < length ms.
         placement (objects (planes_loop env gw (Suc i) ms ?w1) ! (Suc (length (objects w)) + k)) =
           (plane_size,
            (real ((Suc i + k) mod gw) * grid_spacing,
             real ((Suc i + k) div gw) * grid_spacing, 0),
            [ms ! k])"
    unfolding mats len by blast+
  have E: "\<forall>k < length (m # ms).
         placement (objects (planes_loop env gw (Suc i) ms ?w1) ! (length (objects w) + k)) =
           (plane_size,
            (real ((i + k) mod gw) * grid_spacing, real ((i + k) div gw) * grid_spacing, 0),
            [(m # ms) ! k])"
  proof (intro allI impI)
    fix k assume k: "k < length (m # ms)"
    show "placement (objects (planes_loop env gw (Suc i) ms ?w1) ! (length (objects w) + k)) =
           (plane_size,
            (real ((i + k) mod gw) * grid_spacing, real ((i + k) div gw) * grid_spacing, 0),
            [(m # ms) ! k])"
    proof (cases k)
      case 0
      with C new show ?thesis by simp
    next
      case (Suc k')
      with k have "k' < length ms" by simp
      with D Suc show ?thesis by simp
    qed
  qed
  from A B C old E show ?case by simp
qed

lemma ceil_sqrt_bounds:
  assumes "0 < n"
  shows "0 < nat \<lceil>sqrt (real n)\<rceil>" and "(nat \<lceil>sqrt (real n)\<rceil> - 1)\<^sup>2 < n"
    and "n \<le> (nat \<lceil>sqrt (real n)\<rceil>)\<^sup>2"
proof -
  let ?g = "nat \<lceil>sqrt (real n)\<rceil>"
  from assms have pos: "0 < sqrt (real n)" by simp
  then have c: "0 < \<lceil>sqrt (real n)\<rceil>" by linarith
  then show g: "0 < ?g" by simp
  have rg: "real ?g = of_int \<lceil>sqrt (real n)\<rceil>" using c by simp
  have up: "sqrt (real n) \<le> real ?g" unfolding rg by (rule le_of_int_ceiling)
  have "real n = (sqrt (real n))\<^sup>2" by simp
  also have "\<dots> \<le> (real ?g)\<^sup>2" using up pos by (intro power_mono) simp_all
  finally have "real n \<le> real (?g\<^sup>2)" by simp
  then show "n \<le> ?g\<^sup>2" by (simp only: of_nat_le_iff)
  have lo: "real ?g - 1 < sqrt (real n)" unfolding rg by linarith
  have "real (?g - 1) = real ?g - real 1" by (rule of_nat_diff) (use g in linarith)
  then have "real (?g - 1) = real ?g - 1" by (simp only: of_nat_1)
  with lo have "real (?g - 1) < sqrt (real n)" by linarith
  then have "(real (?g - 1))\<^sup>2 < (sqrt (real n))\<^sup>2"
    by (intro power_strict_mono) simp_all
  then have "real ((?g - 1)\<^sup>2) < real n" by simp
  then show "(?g - 1)\<^sup>2 < n" by (simp only: of_nat_less_iff)
qed

lemma ceil_sqrt_eq:
  assumes "0 < g" and "(g - 1)\<^sup>2 < n" and "n \<le> g\<^sup>2"
  shows "nat \<lceil>sqrt (real n)\<rceil> = g"
proof -
  have "real (g - 1) < sqrt (real n)"
    using assms(2) by (intro real_less_rsqrt) (simp flip: of_nat_power)
  then have lo: "real g - 1 < sqrt (real n)" using assms(1) by (simp add: of_nat_diff)
  have up: "sqrt (real n) \<le> real g"
    using assms(3) by (intro real_le_lsqrt) (simp_all flip: of_nat_power)
  have "\<lceil>sqrt (real n)\<rceil> = int g"
    using lo up by (intro ceiling_unique) simp_all
  then show ?thesis by simp
qed


lemma create_material_planes_run:
  assumes "materials w \<noteq> []"
  shows "create_material_planes env w =
     ((True, ''Successfully created '' @ str_nat (length (materials w))
              @ '' planes arranged in a '' @ str_nat (nat \<lceil>sqrt (real (length (materials w)))\<rceil>)
              @ ''x'' @ str_nat (nat \<lceil>real (length (materials w))
                    / real (nat \<lceil>sqrt (real (length (materials w)))\<rceil>)\<rceil>) @ '' grid''),
      py_print (PrintMessage (''Successfully created '' @ str_nat (length (materials w))
              @ '' planes arranged in a '' @ str_nat (nat \<lceil>sqrt (real (length (materials w)))\<rceil>)
              @ ''x'' @ str_nat (nat \<lceil>real (length (materials w))
                    / real (nat \<lceil>sqrt (real (length (materials w)))\<rceil>)\<rceil>) @ '' grid''))
        (planes_loop env (nat \<lceil>sqrt (real (length (materials w)))\<rceil>) 0
           [0..<length (materials w)]
           (select_all_deselect (py_print (FoundMaterials (length (materials w))) w))))"
  using assms by (simp add: create_material_planes_def Let_def del: str_nat.simps)

section \<open>Quoted texture-path lines\<close>

text \<open>
  Claim C5.  Every non-blank line of the texture-path file contributes one path: the line
  with white space stripped and then every leading and trailing quote character (single or
  double) removed.  What is removed at either end consists of quote characters only, the
  path that is left neither starts nor ends with a quote character, and a stripped line
  that neither starts nor ends with a quote character is taken unchanged.
\<close>

theorem texture_path_quotes_removed:
  "texture_paths_of ls =
     map (\<lambda>l. strip_chars quote_chars (strip l)) (filter (\<lambda>l. strip l \<noteq> []) ls)
   \<and> (\<forall>l. (\<exists>pre suf. strip l = pre @ strip_chars quote_chars (strip l) @ suf
                  \<and> set pre \<subseteq> set quote_chars \<and> set suf \<subseteq> set quote_chars)
          \<and> (strip_chars quote_chars (strip l) \<noteq> [] \<longrightarrow>
                hd (strip_chars quote_chars (strip l)) \<notin> set quote_chars
                \<and> last (strip_chars quote_chars (strip l)) \<notin> set quote_chars)
          \<and> (strip l \<noteq> [] \<and> hd (strip l) \<notin> set quote_chars
                \<and> last (strip l) \<notin> set quote_chars \<longrightarrow>
                strip_chars quote_chars (strip l) = strip l))"
proof (intro conjI allI impI)
  show "texture_paths_of ls =
     map (\<lambda>l. strip_chars quote_chars (strip l)) (filter (\<lambda>l. strip l \<noteq> []) ls)"
    by (rule texture_paths_of_eq)
next
  fix l
  obtain pre suf where "strip l = pre @ strip_where (\<lambda>c. c \<in> set quote_chars) (strip l) @ suf"
    and "\<forall>c \<in> set pre. c \<in> set quote_chars" and "\<forall>c \<in> set suf. c \<in> set quote_chars"
    using strip_where_decomp [of "strip l" "\<lambda>c. c \<in> set quote_chars"] by blast
  then show "\<exists>pre suf. strip l = pre @ strip_chars quote_chars (strip l) @ suf
                  \<and> set pre \<subseteq> set quote_chars \<and> set suf \<subseteq> set quote_chars"
    unfolding strip_chars_def by blast
next
  fix l
  assume "strip_chars quote_chars (strip l) \<noteq> []"
  then show "hd (strip_chars quote_chars (strip l)) \<notin> set quote_chars"
    unfolding strip_chars_def by (rule strip_where_ends(1))
next
  fix l
  assume "strip_chars quote_chars (strip l) \<noteq> []"
  then show "last (strip_chars quote_chars (strip l)) \<notin> set quote_chars"
    unfolding strip_chars_def by (rule strip_where_ends(2))
next
  fix l
  assume "strip l \<noteq> [] \<and> hd (strip l) \<notin> set quote_chars \<and> last (strip l) \<notin> set quote_chars"
  then show "strip_chars quote_chars (strip l) = strip l"
    unfolding strip_chars_def by (simp add: strip_where_unchanged)
qed

theorem texture_path_quotes_removed_witness:
  "texture_paths_of [[CHR 0x20, CHR 0x22] @ ''C:/tex/a.png'' @ [CHR 0x22, CHR 0x0A],
                     [CHR 0x0A], ''b.png'' @ [CHR 0x0A]]
     = [''C:/tex/a.png'', ''b.png'']
   \<and> strip_chars quote_chars (strip ([CHR 0x22] @ ''a.png'' @ [CHR 0x22, CHR 0x0A])) \<noteq> []
   \<and> hd (strip_chars quote_chars (strip ([CHR 0x22] @ ''a.png'' @ [CHR 0x22, CHR 0x0A])))
        \<notin> set quote_chars
   \<and> strip (''b.png'' @ [CHR 0x0A]) \<noteq> []
   \<and> hd (strip (''b.png'' @ [CHR 0x0A])) \<notin> set quote_chars
   \<and> last (strip (''b.png'' @ [CHR 0x0A])) \<notin> set quote_chars
   \<and> strip_chars quote_chars (strip (''b.png'' @ [CHR 0x0A])) = strip (''b.png'' @ [CHR 0x0A])"
  using texture_path_quotes_removed
    [of "[[CHR 0x20, CHR 0x22] @ ''C:/tex/a.png'' @ [CHR 0x22, CHR 0x0A],
          [CHR 0x0A], ''b.png'' @ [CHR 0x0A]]"]
  by (simp add: strip_def strip_chars_def strip_where_def isspace_def quote_chars_def)

section \<open>The number of materials created\<close>




section \<open>Missing files\<close>

text \<open>
  Claim C6, as amended.  The two files are read one after the other and the first failure
  decides the message.  If the input file is missing, the result is the failure
  \<open>Could not find input file: <path>\<close>; if the input file was read and the path file is
  missing, it is the failure \<open>Could not find path file: <path>\<close>; the operator reports
  that message as an error and is cancelled.  Whenever one of the two files is missing the
  result is a failure and the world, with its material collection, is unchanged.
\<close>

theorem missing_file_failure:
  "(read_lines env inp = FileNotFound \<or> read_lines env pth = FileNotFound \<longrightarrow>
      (\<exists>msg. create_materials_from_files env inp pth w = (Failure msg, w)))
   \<and> (read_lines env inp = FileNotFound \<longrightarrow>
        create_materials_from_files env inp pth w
          = (Failure (''Could not find input file: '' @ inp), w)
        \<and> (inp \<noteq> [] \<and> pth \<noteq> [] \<longrightarrow>
             execute env \<lparr>input_file_path = inp, path_file_path = pth\<rparr> w
               = (((ERROR, ''Could not find input file: '' @ inp), CANCELLED), w)))
   \<and> ((\<exists>ls. read_lines env inp = Lines ls) \<and> read_lines env pth = FileNotFound \<longrightarrow>
        create_materials_from_files env inp pth w
          = (Failure (''Could not find path file: '' @ pth), w)
        \<and> (inp \<noteq> [] \<and> pth \<noteq> [] \<longrightarrow>
             execute env \<lparr>input_file_path = inp, path_file_path = pth\<rparr> w
               = (((ERROR, ''Could not find path file: '' @ pth), CANCELLED), w)))"
proof (intro conjI impI)
  assume "read_lines env inp = FileNotFound \<or> read_lines env pth = FileNotFound"
  then show "\<exists>msg. create_materials_from_files env inp pth w = (Failure msg, w)"
    by (cases rule: create_materials_from_files_cases [of env inp pth w]) auto
next
  assume "read_lines env inp = FileNotFound"
  then show "create_materials_from_files env inp pth w
      = (Failure (''Could not find input file: '' @ inp), w)"
    by (simp add: create_materials_from_files_def)
next
  assume "read_lines env inp = FileNotFound" "inp \<noteq> [] \<and> pth \<noteq> []"
  then show "execute env \<lparr>input_file_path = inp, path_file_path = pth\<rparr> w
      = (((ERROR, ''Could not find input file: '' @ inp), CANCELLED), w)"
    by (simp add: execute_def create_materials_from_files_def)
next
  assume "(\<exists>ls. read_lines env inp = Lines ls) \<and> read_lines env pth = FileNotFound"
  then show "create_materials_from_files env inp pth w
      = (Failure (''Could not find path file: '' @ pth), w)"
    by (auto simp: create_materials_from_files_def)
next
  assume "(\<exists>ls. read_lines env inp = Lines ls) \<and> read_lines env pth = FileNotFound"
    "inp \<noteq> [] \<and> pth \<noteq> []"
  then show "execute env \<lparr>input_file_path = inp, path_file_path = pth\<rparr> w
      = (((ERROR, ''Could not find path file: '' @ pth), CANCELLED), w)"
    by (auto simp: execute_def create_materials_from_files_def)
qed

theorem missing_file_failure_witness:
  "read_lines demo_env ''missing.txt'' = FileNotFound
   \<and> (\<exists>ls. read_lines demo_env ''names.txt'' = Lines ls)
   \<and> create_materials_from_files demo_env ''missing.txt'' ''paths.txt'' stone_world
       = (Failure ''Could not find input file: missing.txt'', stone_world)
   \<and> create_materials_from_files demo_env ''names.txt'' ''missing.txt'' stone_world
       = (Failure ''Could not find path file: missing.txt'', stone_world)
   \<and> execute demo_env \<lparr>input_file_path = ''names.txt'', path_file_path = ''missing.txt''\<rparr>
         stone_world
       = (((ERROR, ''Could not find path file: missing.txt''), CANCELLED), stone_world)"
  using missing_file_failure [of demo_env "''missing.txt''" "''paths.txt''" stone_world]
    missing_file_failure [of demo_env "''names.txt''" "''missing.txt''" stone_world]
  by (simp add: demo_env_simps)

text \<open>
  As stated, the claim promises a missing-file message for the path file whenever that file
  is missing.  When reading the input file fails first with another error, the message is
  that error's.
\<close>

theorem missing_path_file_counterexample:
  "read_lines demo_env ''missing.txt'' = FileNotFound
   \<and> create_materials_from_files demo_env ''folder'' ''missing.txt'' empty_world
       = (Failure ''Error reading input file: Is a directory'', empty_world)"
  by (simp add: create_materials_from_files_def demo_env_simps)


section \<open>Files without names or paths\<close>

text \<open>
  Claim C9, as amended.  When both files are read and one of them has no non-blank line,
  the result is the failure \<open>No material names found in input file\<close> (no names) or
  \<open>No texture paths found in path file\<close> (names but no paths), and the world is
  unchanged.  Whenever a file that is read has no non-blank line the result is a failure
  and the world is unchanged, whatever happens to the other file.
\<close>

theorem empty_list_failure:
  "((\<exists>a. read_lines env inp = Lines a \<and> material_names_of a = [])
      \<or> (\<exists>b. read_lines env pth = Lines b \<and> texture_paths_of b = []) \<longrightarrow>
      (\<exists>msg. create_materials_from_files env inp pth w = (Failure msg, w)))
   \<and> (\<forall>a b. read_lines env inp = Lines a \<and> read_lines env pth = Lines b
          \<and> material_names_of a = [] \<longrightarrow>
        create_materials_from_files env inp pth w
          = (Failure ''No material names found in input file'', w))
   \<and> (\<forall>a b. read_lines env inp = Lines a \<and> read_lines env pth = Lines b
          \<and> material_names_of a \<noteq> [] \<and> texture_paths_of b = [] \<longrightarrow>
        create_materials_from_files env inp pth w
          = (Failure ''No texture paths found in path file'', w))"
proof (intro conjI impI allI)
  assume "(\<exists>a. read_lines env inp = Lines a \<and> material_names_of a = [])
      \<or> (\<exists>b. read_lines env pth = Lines b \<and> texture_paths_of b = [])"
  then show "\<exists>msg. create_materials_from_files env inp pth w = (Failure msg, w)"
    by (cases rule: create_materials_from_files_cases [of env inp pth w]) auto
next
  fix a b
  assume "read_lines env inp = Lines a \<and> read_lines env pth = Lines b
          \<and> material_names_of a = []"
  then show "create_materials_from_files env inp pth w
          = (Failure ''No material names found in input file'', w)"
    by (simp add: create_materials_from_files_def)
next
  fix a b
  assume "read_lines env inp = Lines a \<and> read_lines env pth = Lines b
          \<and> material_names_of a \<noteq> [] \<and> texture_paths_of b = []"
  then show "create_materials_from_files env inp pth w
          = (Failure ''No texture paths found in path file'', w)"
    by (simp add: create_materials_from_files_def)
qed

theorem empty_list_failure_witness:
  "read_lines demo_env ''blank.txt'' = Lines blank_file
   \<and> read_lines demo_env ''names.txt'' = Lines names_file
   \<and> read_lines demo_env ''paths.txt'' = Lines paths_file
   \<and> material_names_of blank_file = [] \<and> texture_paths_of blank_file = []
   \<and> material_names_of names_file \<noteq> []
   \<and> create_materials_from_files demo_env ''blank.txt'' ''paths.txt'' stone_world
       = (Failure ''No material names found in input file'', stone_world)
   \<and> create_materials_from_files demo_env ''names.txt'' ''blank.txt'' stone_world
       = (Failure ''No texture paths found in path file'', stone_world)"
  using empty_list_failure [of demo_env "''blank.txt''" "''paths.txt''" stone_world]
    empty_list_failure [of demo_env "''names.txt''" "''blank.txt''" stone_world]
  by (simp add: demo_env_simps demo_blank demo_names)

text \<open>
  As stated, the claim names the two messages for every input with a blank file.  When the
  names file is blank and the path file is missing, the message is the missing file's.
\<close>

theorem empty_list_counterexample:
  "read_lines demo_env ''blank.txt'' = Lines blank_file
   \<and> material_names_of blank_file = []
   \<and> create_materials_from_files demo_env ''blank.txt'' ''missing.txt'' empty_world
       = (Failure ''Could not find path file: missing.txt'', empty_world)"
  by (simp add: create_materials_from_files_def demo_env_simps demo_blank)

section \<open>Files of different lengths\<close>

text \<open>
  Claim C3, as amended.  When both files are read, both line lists are non-empty and their
  lengths differ, the warning is printed first, the loop runs over the two lists cut to the
  shorter length, and the call succeeds; the count is at most that length.
\<close>

theorem count_mismatch_truncates:
  assumes "read_lines env inp = Lines a" and "read_lines env pth = Lines b"
    and "material_names_of a \<noteq> []" and "texture_paths_of b \<noteq> []"
    and "length (material_names_of a) \<noteq> length (texture_paths_of b)"
  shows "\<exists>w2 created out.
     create_loop env (min (length (material_names_of a)) (length (texture_paths_of b))) 0
       (zip (take (min (length (material_names_of a)) (length (texture_paths_of b)))
               (material_names_of a))
            (take (min (length (material_names_of a)) (length (texture_paths_of b)))
               (texture_paths_of b)))
       (py_print (WarnCountMismatch (length (material_names_of a))
                    (length (texture_paths_of b))) w, [])
       = (w2, created)
     \<and> create_materials_from_files env inp pth w
         = (Success (length created), mark_assets env created w2)
     \<and> stdout (mark_assets env created w2)
         = stdout w @ WarnCountMismatch (length (material_names_of a))
                        (length (texture_paths_of b)) # out
     \<and> length created \<le> min (length (material_names_of a)) (length (texture_paths_of b))"
proof -
  let ?names = "material_names_of a"
  let ?paths = "texture_paths_of b"
  let ?m = "min (length ?names) (length ?paths)"
  let ?w1 = "py_print (WarnCountMismatch (length ?names) (length ?paths)) w"
  obtain w2 cr where st: "create_loop env ?m 0 (zip (take ?m ?names) (take ?m ?paths)) (?w1, [])
      = (w2, cr)"
    by (cases "create_loop env ?m 0 (zip (take ?m ?names) (take ?m ?paths)) (?w1, [])")
  have run: "create_materials_from_files env inp pth w
      = (Success (length cr), mark_assets env cr w2)"
    using create_materials_from_files_run [OF assms(1-4), of w] st assms(5)
    by (simp add: Let_def)
  from create_loop_frame [OF st] obtain s1 where s1: "stdout w2 = stdout ?w1 @ s1" by blast
  from mark_assets_frame [of env cr w2] obtain s2
    where s2: "stdout (mark_assets env cr w2) = stdout w2 @ s2" by blast
  have out: "stdout (mark_assets env cr w2)
      = stdout w @ WarnCountMismatch (length ?names) (length ?paths) # (s1 @ s2)"
    by (simp add: s1 s2)
  from create_loop_length [OF st] have "length cr \<le> ?m" by simp
  with st run out show ?thesis by blast
qed

theorem count_mismatch_truncates_witness:
  "read_lines demo_env ''names.txt'' = Lines names_file
   \<and> read_lines demo_env ''paths.txt'' = Lines paths_file
   \<and> material_names_of names_file \<noteq> [] \<and> texture_paths_of paths_file \<noteq> []
   \<and> length (material_names_of names_file) \<noteq> length (texture_paths_of paths_file)
   \<and> (\<exists>w2 created out.
     create_loop demo_env 4 0
       [(''wood'', ''a.png''), (''stone'', ''b.png''), (''wood'', ''c.png''),
        (''glass'', ''d.png'')]
       (py_print (WarnCountMismatch 4 5) stone_world, []) = (w2, created)
     \<and> create_materials_from_files demo_env ''names.txt'' ''paths.txt'' stone_world
         = (Success (length created), mark_assets demo_env created w2)
     \<and> stdout (mark_assets demo_env created w2)
         = stdout stone_world @ WarnCountMismatch 4 5 # out
     \<and> length created \<le> 4)"
  using count_mismatch_truncates [of demo_env "''names.txt''" names_file "''paths.txt''"
      paths_file stone_world]
  by (simp add: demo_env_simps demo_names demo_paths eval_nat_numeral del: create_loop.simps)

text \<open>
  As stated, the claim covers every pair of lists of different lengths.  With four names and
  no path the lengths differ, yet the call fails and nothing is printed.
\<close>

theorem count_mismatch_counterexample:
  "length (material_names_of names_file) \<noteq> length (texture_paths_of blank_file)
   \<and> create_materials_from_files demo_env ''names.txt'' ''blank.txt'' empty_world
       = (Failure ''No texture paths found in path file'', empty_world)"
  by (simp add: create_materials_from_files_def demo_env_simps demo_names demo_blank)


section \<open>Materials that already exist\<close>

text \<open>
  Claim C10, as amended.  A pair whose name is the name of a material when the pair is
  processed is skipped: the iteration only prints two lines, so no material, node or image
  is created or changed for it.  Every material that exists before the call is the same
  after it: it is not modified and not marked as an asset by this run.  (A material that an
  earlier pair of the same run created is marked as an asset after the loop, although a
  later pair with its name is skipped.)
\<close>

theorem existing_material_untouched:
  "(nm \<in> set (map mat_name (materials w)) \<longrightarrow>
      create_material env n i nm tp (w, cr)
        = (w\<lparr>stdout := stdout w @ [Creating (i + 1) n nm, AlreadyExists nm]\<rparr>, cr))
   \<and> (\<forall>j < length (materials w).
        materials (snd (create_materials_from_files env inp pth w)) ! j = materials w ! j)"
proof (intro conjI impI allI)
  assume "nm \<in> set (map mat_name (materials w))"
  then show "create_material env n i nm tp (w, cr)
        = (w\<lparr>stdout := stdout w @ [Creating (i + 1) n nm, AlreadyExists nm]\<rparr>, cr)"
    by (simp add: create_material_skip py_print_def)
next
  fix j
  assume j: "j < length (materials w)"
  show "materials (snd (create_materials_from_files env inp pth w)) ! j = materials w ! j"
  proof (cases rule: create_materials_from_files_cases [of env inp pth w])
    case (failure msg)
    then show ?thesis by simp
  next
    case (run a b)
    let ?names = "material_names_of a"
    let ?paths = "texture_paths_of b"
    let ?m = "min (length ?names) (length ?paths)"
    let ?w1 = "if length ?names \<noteq> length ?paths
      then py_print (WarnCountMismatch (length ?names) (length ?paths)) w else w"
    obtain w2 cr where st:
      "create_loop env ?m 0 (zip (take ?m ?names) (take ?m ?paths)) (?w1, []) = (w2, cr)"
      by (cases "create_loop env ?m 0 (zip (take ?m ?names) (take ?m ?paths)) (?w1, [])")
    have res: "create_materials_from_files env inp pth w
        = (Success (length cr), mark_assets env cr w2)"
      using create_materials_from_files_run [OF run, of w] st by (simp add: Let_def)
    have w1: "materials ?w1 = materials w" by simp
    from create_loop_frame [OF st] obtain ms
      where ms: "materials w2 = materials w @ ms"
        and refs: "\<forall>r \<in> set cr. length (materials w) \<le> r"
      unfolding w1 by auto
    from refs j have "j \<notin> set cr" by auto
    with mark_assets_frame [of env cr w2]
    have "materials (mark_assets env cr w2) ! j = materials w2 ! j" by blast
    also have "\<dots> = materials w ! j" using ms j by (simp add: nth_append)
    finally show ?thesis by (simp add: res)
  qed
qed

theorem existing_material_untouched_witness:
  "''stone'' \<in> set (map mat_name (materials stone_world))
   \<and> create_material demo_env 4 1 ''stone'' ''b.png'' (stone_world, [])
        = (stone_world\<lparr>stdout := stdout stone_world
             @ [Creating (1 + 1) 4 ''stone'', AlreadyExists ''stone'']\<rparr>, [])
   \<and> (0::nat) < length (materials stone_world)
   \<and> materials (snd (create_materials_from_files demo_env ''names.txt'' ''paths.txt''
         stone_world)) ! 0 = materials stone_world ! 0"
  using existing_material_untouched [of "''stone''" stone_world demo_env 4 1 "''b.png''" "[]"
      "''names.txt''" "''paths.txt''"]
  by (simp add: stone_world_def empty_world_def)

text \<open>
  As stated, the claim covers names repeated in the input.  The third name of the sample
  file is \<open>wood\<close> again: that pair is skipped because the material of the first pair
  exists, unmarked, and the same run then marks that material as an asset.
\<close>

theorem repeated_name_counterexample:
  "material_names_of names_file ! 2 = ''wood''
   \<and> mat_name (materials (fst (create_loop demo_env 4 0
        [(''wood'', ''a.png''), (''stone'', ''b.png'')]
        (py_print (WarnCountMismatch 4 5) empty_world, []))) ! 0) = ''wood''
   \<and> \<not> mat_asset (materials (fst (create_loop demo_env 4 0
        [(''wood'', ''a.png''), (''stone'', ''b.png'')]
        (py_print (WarnCountMismatch 4 5) empty_world, []))) ! 0)
   \<and> mat_name (materials (snd (create_materials_from_files demo_env ''names.txt''
        ''paths.txt'' empty_world)) ! 0) = ''wood''
   \<and> mat_asset (materials (snd (create_materials_from_files demo_env ''names.txt''
        ''paths.txt'' empty_world)) ! 0)
   \<and> AlreadyExists ''wood'' \<in> set (stdout (snd (create_materials_from_files demo_env
        ''names.txt'' ''paths.txt'' empty_world)))
   \<and> MarkedAsset ''wood'' \<in> set (stdout (snd (create_materials_from_files demo_env
        ''names.txt'' ''paths.txt'' empty_world)))"
  unfolding demo_run demo_names
  by (simp add: textured_material_def create_material_placeholder host_name_short
      demo_placeholder placeholder_def demo_env_simps empty_world_def py_print_def)

section \<open>Pairing of names and paths\<close>

text \<open>
  Claim C4, as amended.  Names and paths are paired by their position among the non-blank
  lines of their files: entry \<open>i\<close> of either list is the \<open>i\<close>-th non-blank line, stripped
  (and unquoted, for a path).  When the \<open>i\<close>-th name is not the name of a material before
  the call and does not occur earlier in the list, the names up to the \<open>i\<close>-th fit the
  63 bytes that the host keeps of a name, no host call of the \<open>i\<close>-th texture set-up
  other than \<open>img.reload()\<close> raises, and normalising the \<open>i\<close>-th path twice is the
  same as normalising it once, then after the call there is a material with that name whose
  image texture node holds an image with the normalised \<open>i\<close>-th path as file path.
\<close>

theorem pairing_by_position:
  assumes rd: "read_lines env inp = Lines a" "read_lines env pth = Lines b"
    and i: "i < length (material_names_of a)" "i < length (texture_paths_of b)"
    and fresh: "material_names_of a ! i \<notin> set (map mat_name (materials w))"
    and first: "\<forall>j<i. material_names_of a ! j \<noteq> material_names_of a ! i"
    and fits: "\<forall>j\<le>i. utf8_length (material_names_of a ! j) \<le> max_name_bytes"
    and ok: "\<forall>c. c \<noteq> Reload \<longrightarrow>
               \<not> raises env (material_names_of a ! i) (texture_paths_of b ! i) c"
    and idem: "normpath env (normpath env (texture_paths_of b ! i))
                 = normpath env (texture_paths_of b ! i)"
  shows "material_names_of a ! i = strip (filter (\<lambda>l. strip l \<noteq> []) a ! i)
     \<and> texture_paths_of b ! i
         = strip_chars quote_chars (strip (filter (\<lambda>l. strip l \<noteq> []) b ! i))
     \<and> (\<exists>q < length (materials (snd (create_materials_from_files env inp pth w))).
          mat_name (materials (snd (create_materials_from_files env inp pth w)) ! q)
            = material_names_of a ! i
          \<and> texture_of (snd (create_materials_from_files env inp pth w)) q
            = Some (normpath env (texture_paths_of b ! i)))"
proof (intro conjI)
  show "material_names_of a ! i = strip (filter (\<lambda>l. strip l \<noteq> []) a ! i)"
    using i(1) by (rule nonblank_nth)
  show "texture_paths_of b ! i
      = strip_chars quote_chars (strip (filter (\<lambda>l. strip l \<noteq> []) b ! i))"
    using i(2) by (rule nonblank_nth)
next
  let ?names = "material_names_of a"
  let ?paths = "texture_paths_of b"
  let ?m = "min (length ?names) (length ?paths)"
  let ?w1 = "if length ?names \<noteq> length ?paths
      then py_print (WarnCountMismatch (length ?names) (length ?paths)) w else w"
  let ?pairs = "zip (take ?m ?names) (take ?m ?paths)"
  let ?nm = "?names ! i"
  let ?tp = "?paths ! i"
  from i have ne: "?names \<noteq> []" "?paths \<noteq> []" by auto
  from i have im: "i < ?m" by simp
  then have ilen: "i < length ?pairs" by simp
  have nth: "?pairs ! i = (?nm, ?tp)" using im by simp
  have split: "?pairs = take i ?pairs @ (?nm, ?tp) # drop (Suc i) ?pairs"
    using id_take_nth_drop [OF ilen] nth by simp
  obtain wi cri where sti: "create_loop env ?m 0 (take i ?pairs) (?w1, []) = (wi, cri)"
    by (cases "create_loop env ?m 0 (take i ?pairs) (?w1, [])")
  have fst_take: "map fst (take i ?pairs) = take i ?names"
    using im by (simp add: take_map [symmetric] min_def)
  have nonempty: "nm \<noteq> []" if "nm \<in> set ?names" for nm
    using that by (rule material_names_nonempty)
  have "\<forall>nm \<in> set (map fst (take i ?pairs)).
      nm \<noteq> [] \<and> utf8_length nm \<le> max_name_bytes"
    unfolding fst_take
  proof
    fix nm assume nm: "nm \<in> set (take i ?names)"
    then obtain j where "j < length (take i ?names)" "take i ?names ! j = nm"
      by (auto simp: in_set_conv_nth)
    then have "j \<le> i" "?names ! j = nm" by simp_all
    with fits have "utf8_length nm \<le> max_name_bytes" by blast
    moreover from nm have "nm \<in> set ?names" by (rule in_set_takeD)
    then have "nm \<noteq> []" by (rule nonempty)
    ultimately show "nm \<noteq> [] \<and> utf8_length nm \<le> max_name_bytes" by simp
  qed
  with create_loop_count [OF sti]
  have names_i: "set (map mat_name (materials wi))
      = set (map mat_name (materials w)) \<union> set (take i ?names)"
    unfolding fst_take by simp
  from fits have fit_i: "utf8_length ?nm \<le> max_name_bytes" by blast
  from i(1) have ne_i: "?nm \<noteq> []" by (intro nonempty nth_mem)
  have "?nm \<notin> set (take i ?names)"
  proof
    assume "?nm \<in> set (take i ?names)"
    then obtain j where "j < length (take i ?names)" "take i ?names ! j = ?nm"
      by (auto simp: in_set_conv_nth)
    then have "j < i" "?names ! j = ?nm" by simp_all
    with first show False by blast
  qed
  with fresh names_i have new: "?nm \<notin> set (map mat_name (materials wi))" by simp
  obtain wj crj where stj: "create_material env ?m i ?nm ?tp (wi, cri) = (wj, crj)"
    by (cases "create_material env ?m i ?nm ?tp (wi, cri)")
  let ?q = "length (materials wi)"
  from create_material_makes_texture [OF new fit_i ne_i ok, of ?m i cri] stj
  have q: "?q < length (materials wj)" and nm: "mat_name (materials wj ! ?q) = ?nm"
    and tx: "texture_of wj ?q = Some (normpath env ?tp)"
    by simp_all
  obtain w2 cr where st2: "create_loop env ?m (Suc i) (drop (Suc i) ?pairs) (wj, crj) = (w2, cr)"
    by (cases "create_loop env ?m (Suc i) (drop (Suc i) ?pairs) (wj, crj)")
  from create_loop_keeps_texture [OF idem q tx, of ?m "Suc i" "drop (Suc i) ?pairs" crj] st2 nm
  have w2: "?q < length (materials w2)" "mat_name (materials w2 ! ?q) = ?nm"
    "texture_of w2 ?q = Some (normpath env ?tp)"
    by simp_all
  have "create_loop env ?m 0 ?pairs (?w1, [])
      = create_loop env ?m 0 (take i ?pairs @ (?nm, ?tp) # drop (Suc i) ?pairs) (?w1, [])"
    using split by simp
  also have "\<dots> = (w2, cr)"
    using ilen by (simp add: create_loop_append sti stj st2 min_absorb2)
  finally have st: "create_loop env ?m 0 ?pairs (?w1, []) = (w2, cr)" .
  have res: "create_materials_from_files env inp pth w
      = (Success (length cr), mark_assets env cr w2)"
    using create_materials_from_files_run [OF rd ne, of w] st by (simp add: Let_def)
  from mark_assets_frame [of env cr w2] w2
  have "?q < length (materials (mark_assets env cr w2))"
    "mat_name (materials (mark_assets env cr w2) ! ?q) = ?nm"
    by simp_all
  moreover have "texture_of (mark_assets env cr w2) ?q = Some (normpath env ?tp)"
    using w2(3) by (simp add: mark_assets_keeps_texture)
  ultimately show "\<exists>q < length (materials (snd (create_materials_from_files env inp pth w))).
          mat_name (materials (snd (create_materials_from_files env inp pth w)) ! q) = ?nm
          \<and> texture_of (snd (create_materials_from_files env inp pth w)) q
            = Some (normpath env ?tp)"
    unfolding res by auto
qed


theorem pairing_by_position_witness:
  "read_lines demo_env ''names.txt'' = Lines names_file
   \<and> read_lines demo_env ''paths.txt'' = Lines paths_file
   \<and> (1::nat) < length (material_names_of names_file)
   \<and> (1::nat) < length (texture_paths_of paths_file)
   \<and> material_names_of names_file ! 1 = ''stone''
   \<and> texture_paths_of paths_file ! 1 = ''b.png''
   \<and> material_names_of names_file ! 1 \<notin> set (map mat_name (materials empty_world))
   \<and> material_names_of names_file ! 0 \<noteq> material_names_of names_file ! 1
   \<and> utf8_length (material_names_of names_file ! 0) = 4
   \<and> utf8_length (material_names_of names_file ! 1) = 5
   \<and> (\<forall>c. \<not> raises demo_env (material_names_of names_file ! 1)
               (texture_paths_of paths_file ! 1) c)
   \<and> normpath demo_env (normpath demo_env (texture_paths_of paths_file ! 1))
       = normpath demo_env (texture_paths_of paths_file ! 1)
   \<and> (\<exists>q < length (materials (snd (create_materials_from_files demo_env ''names.txt''
                ''paths.txt'' empty_world))).
          mat_name (materials (snd (create_materials_from_files demo_env ''names.txt''
                ''paths.txt'' empty_world)) ! q) = ''stone''
          \<and> texture_of (snd (create_materials_from_files demo_env ''names.txt''
                ''paths.txt'' empty_world)) q = Some ''b.png'')"
proof -
  have n: "material_names_of names_file ! 1 = ''stone''"
    and p: "texture_paths_of paths_file ! 1 = ''b.png''"
    by (simp_all add: demo_names demo_paths)
  have a: "read_lines demo_env ''names.txt'' = Lines names_file"
    "read_lines demo_env ''paths.txt'' = Lines paths_file"
    by (simp_all add: demo_env_simps)
  have b: "(1::nat) < length (material_names_of names_file)"
    "(1::nat) < length (texture_paths_of paths_file)"
    by (simp_all add: demo_names demo_paths)
  have c: "material_names_of names_file ! 1 \<notin> set (map mat_name (materials empty_world))"
    by (simp add: empty_world_def)
  have d: "\<forall>j<1. material_names_of names_file ! j \<noteq> material_names_of names_file ! 1"
    by (simp add: demo_names)
  have e: "\<forall>c. c \<noteq> Reload \<longrightarrow> \<not> raises demo_env (material_names_of names_file ! 1)
               (texture_paths_of paths_file ! 1) c"
    by (simp add: demo_env_simps)
  have f: "normpath demo_env (normpath demo_env (texture_paths_of paths_file ! 1))
       = normpath demo_env (texture_paths_of paths_file ! 1)"
    by (simp add: demo_env_simps)
  have u: "utf8_length (material_names_of names_file ! 0) = 4"
    "utf8_length (material_names_of names_file ! 1) = 5"
    by (simp_all add: demo_names utf8_length_def utf8_size_def)
  have u': "\<forall>j\<le>1. utf8_length (material_names_of names_file ! j) \<le> max_name_bytes"
  proof (intro allI impI)
    fix j :: nat assume "j \<le> 1"
    then have "j = 0 \<or> j = 1" by auto
    with u show "utf8_length (material_names_of names_file ! j) \<le> max_name_bytes"
      by (auto simp: max_name_bytes_def)
  qed
  from pairing_by_position [OF a b c d u' e f]
  have "\<exists>q < length (materials (snd (create_materials_from_files demo_env ''names.txt''
                ''paths.txt'' empty_world))).
          mat_name (materials (snd (create_materials_from_files demo_env ''names.txt''
                ''paths.txt'' empty_world)) ! q) = material_names_of names_file ! 1
          \<and> texture_of (snd (create_materials_from_files demo_env ''names.txt''
                ''paths.txt'' empty_world)) q
              = Some (normpath demo_env (texture_paths_of paths_file ! 1))"
    by blast
  then have g: "\<exists>q < length (materials (snd (create_materials_from_files demo_env ''names.txt''
                ''paths.txt'' empty_world))).
          mat_name (materials (snd (create_materials_from_files demo_env ''names.txt''
                ''paths.txt'' empty_world)) ! q) = ''stone''
          \<and> texture_of (snd (create_materials_from_files demo_env ''names.txt''
                ''paths.txt'' empty_world)) q = Some ''b.png''"
    unfolding n p demo_env_simps .
  have d': "material_names_of names_file ! 0 \<noteq> material_names_of names_file ! 1"
    by (simp add: demo_names)
  have e': "\<forall>c. \<not> raises demo_env (material_names_of names_file ! 1)
               (texture_paths_of paths_file ! 1) c"
    by (simp add: demo_env_simps)
  from a b n p c d' u e' f g show ?thesis by blast
qed

text \<open>
  As stated, the claim pairs by line index of the files.  In the sample names file the second
  line is blank: \<open>stone\<close> is on the third line and is paired with the second line of the
  path file, \<open>b.png\<close>, not with its third line, \<open>c.png\<close>.
\<close>

theorem line_index_counterexample:
  "names_file ! 2 = ''  stone '' @ [CHR 0x0A]
   \<and> paths_file ! 2 = ''c.png'' @ [CHR 0x0A]
   \<and> length (materials (snd (create_materials_from_files demo_env ''names.txt''
         ''paths.txt'' empty_world))) = 3
   \<and> map (\<lambda>q. (mat_name (materials (snd (create_materials_from_files demo_env ''names.txt''
                     ''paths.txt'' empty_world)) ! q),
                texture_of (snd (create_materials_from_files demo_env ''names.txt''
                     ''paths.txt'' empty_world)) q)) [0, 1, 2]
       = [(''wood'', Some ''a.png''), (''stone'', Some ''b.png''), (''glass'', Some ''d.png'')]"
  unfolding demo_run
  by (simp add: names_file_def paths_file_def texture_of_def textured_material_def
      placeholder_def new_node_def eval_nat_numeral)

section \<open>Missing texture files\<close>

text \<open>
  Claim C7, as amended.  In an iteration that is not skipped, if no loaded image has a
  non-empty file path that normalises to the normalised texture path, that path does not
  exist on disk, and no host call raises, then one image is added: the one that
  \<open>images.new\<close> makes with 1024 by 1024 pixels under the base name of the path, given
  the normalised path as its file path and \<open>FILE\<close> as its source.  The image texture
  node of the new material refers to it, and the material is created and appended to
  \<open>created_materials\<close>, whose length is the count.  The name of the image and the size
  it has once its source is a file are the host's.
\<close>

theorem missing_texture_placeholder:
  assumes new: "nm \<notin> set (map mat_name (materials w))"
    and unloaded: "\<forall>im \<in> set (images w).
        img_filepath im = [] \<or> normpath env (img_filepath im) \<noteq> normpath env tp"
    and missing: "\<not> path_exists env (normpath env tp)"
    and ok: "\<forall>c. \<not> raises env nm tp c"
  shows "\<exists>w'. create_material env n i nm tp (w, cr) = (w', cr @ [length (materials w)])
     \<and> images w' = images w @
          [set_filepath env (normpath env tp) (set_source env ''FILE''
             (set_filepath env (normpath env tp)
                \<lparr>img_name = host_name env (map img_name (images w))
                              (basename env (normpath env tp)),
                 img_filepath = [], img_source = ''GENERATED'',
                 img_size = (1024, 1024)\<rparr>))]
     \<and> img_filepath (images w' ! length (images w)) = normpath env tp
     \<and> img_source (images w' ! length (images w)) = ''FILE''
     \<and> length (materials w') = Suc (length (materials w))
     \<and> node_type (mat_nodes (materials w' ! length (materials w)) ! 4) = ''ShaderNodeTexImage''
     \<and> node_image (mat_nodes (materials w' ! length (materials w)) ! 4)
         = Some (length (images w))
     \<and> texture_of w' (length (materials w)) = Some (normpath env tp)"
proof -
  have nf: "find_image env (normpath env tp) (images w) 0 = None"
    using unloaded by (rule find_image_None)
  from ok have ok': "\<forall>c. c \<noteq> Reload \<longrightarrow> \<not> raises env nm tp c" by simp
  show ?thesis
    unfolding create_material_placeholder [OF new nf missing ok']
    by (simp add: textured_material_def new_node_def texture_of_def placeholder_image_def)
qed

theorem missing_texture_placeholder_witness:
  "''wood'' \<notin> set (map mat_name (materials stone_world))
   \<and> images stone_world = []
   \<and> \<not> path_exists demo_env (normpath demo_env ''a.png'')
   \<and> (\<forall>c. \<not> raises demo_env ''wood'' ''a.png'' c)
   \<and> (\<exists>w'. create_material demo_env 4 0 ''wood'' ''a.png'' (stone_world, [])
               = (w', [] @ [length (materials stone_world)])
     \<and> images w' = images stone_world @
          [\<lparr>img_name = ''a.png'', img_filepath = ''a.png'',
            img_source = ''FILE'', img_size = (0, 0)\<rparr>]
     \<and> img_filepath (images w' ! length (images stone_world)) = ''a.png''
     \<and> img_source (images w' ! length (images stone_world)) = ''FILE''
     \<and> length (materials w') = Suc (length (materials stone_world))
     \<and> node_type (mat_nodes (materials w' ! length (materials stone_world)) ! 4)
         = ''ShaderNodeTexImage''
     \<and> node_image (mat_nodes (materials w' ! length (materials stone_world)) ! 4)
         = Some (length (images stone_world))
     \<and> texture_of w' (length (materials stone_world)) = Some ''a.png'')"
proof -
  have a: "''wood'' \<notin> set (map mat_name (materials stone_world))"
    by (simp add: stone_world_def empty_world_def)
  have b: "\<forall>im \<in> set (images stone_world).
        img_filepath im = [] \<or> normpath demo_env (img_filepath im) \<noteq> normpath demo_env ''a.png''"
    by (simp add: stone_world_def empty_world_def)
  have c: "\<not> path_exists demo_env (normpath demo_env ''a.png'')"
    by (simp add: demo_env_simps)
  have d: "\<forall>c. \<not> raises demo_env ''wood'' ''a.png'' c"
    by (simp add: demo_env_simps)
  have b': "images stone_world = []" by (simp add: stone_world_def empty_world_def)
  have e: "set_filepath demo_env ''a.png'' (set_source demo_env ''FILE''
             (set_filepath demo_env ''a.png''
                \<lparr>img_name = host_name demo_env [] ''a.png'',
                 img_filepath = [], img_source = ''GENERATED'',
                 img_size = (1024, 1024)\<rparr>))
      = \<lparr>img_name = ''a.png'', img_filepath = ''a.png'', img_source = ''FILE'',
         img_size = (0, 0)\<rparr>"
    by (simp add: set_filepath_def set_source_def resized_def demo_env_simps host_name_short)
  from missing_texture_placeholder [OF a b c d, of 4 0 "[]"] a b' c d
  show ?thesis by (simp add: demo_env_simps e)
qed

text \<open>
  As stated, the claim covers every texture path that is missing and not loaded.  In the
  sample run the third path, \<open>c.png\<close>, is paired with \<open>wood\<close>, the name of the first
  pair: the pair is skipped, so no image is made for \<open>c.png\<close> and no material is created
  or counted for it.  The fifth path has no name to go with and is dropped before the loop.
\<close>

theorem skipped_pair_counterexample:
  "material_names_of names_file ! 2 = ''wood''
   \<and> texture_paths_of paths_file ! 2 = ''c.png''
   \<and> \<not> path_exists demo_env (normpath demo_env ''c.png'')
   \<and> images empty_world = []
   \<and> fst (create_materials_from_files demo_env ''names.txt'' ''paths.txt'' empty_world)
       = Success 3
   \<and> map img_filepath (images (snd (create_materials_from_files demo_env ''names.txt''
         ''paths.txt'' empty_world))) = [''a.png'', ''b.png'', ''d.png'']
   \<and> map mat_name (materials (snd (create_materials_from_files demo_env ''names.txt''
         ''paths.txt'' empty_world))) = [''wood'', ''stone'', ''glass'']"
  unfolding demo_run
  by (simp add: demo_names demo_paths demo_env_simps empty_world_def placeholder_def
      textured_material_def)

section \<open>Exceptions in the texture set-up\<close>

text \<open>
  Claim C8, as amended.  In an iteration that is not skipped, if one of the host calls that
  the \<open>try\<close> block of the texture set-up makes on its way, other than \<open>img.reload()\<close>,
  raises an exception, then the Base Color of the Principled BSDF node is set to the
  fallback colour \<open>(0.8, 0.2, 0.2, 1.0)\<close>, and the material is created and appended to
  \<open>created_materials\<close>.  An exception of \<open>img.reload()\<close> is swallowed by its own
  handler: when no other call raises, the fallback colour is not set.  Whatever raises in
  the \<open>try\<close> blocks, the call succeeds when both files give non-empty lists.
\<close>

theorem texture_error_fallback:
  assumes new: "nm \<notin> set (map mat_name (materials w))"
  shows "(\<forall>c. c \<in> set (calls_on_path env tp w) \<and> c \<noteq> Reload \<and> raises env nm tp c \<longrightarrow>
        snd (create_material env n i nm tp (w, cr)) = cr @ [length (materials w)]
        \<and> length (materials (fst (create_material env n i nm tp (w, cr))))
            = Suc (length (materials w))
        \<and> node_type (mat_nodes (materials (fst (create_material env n i nm tp (w, cr)))
              ! length (materials w)) ! 1) = ''ShaderNodeBsdfPrincipled''
        \<and> node_base_color (mat_nodes (materials (fst (create_material env n i nm tp (w, cr)))
              ! length (materials w)) ! 1) = Some fallback_color)
     \<and> ((\<forall>c. c \<noteq> Reload \<longrightarrow> \<not> raises env nm tp c) \<longrightarrow>
          snd (create_material env n i nm tp (w, cr)) = cr @ [length (materials w)]
          \<and> node_base_color (mat_nodes (materials (fst (create_material env n i nm tp (w, cr)))
              ! length (materials w)) ! 1) = None)
     \<and> (\<forall>a b. read_lines env inp = Lines a \<and> read_lines env pth = Lines b
           \<and> material_names_of a \<noteq> [] \<and> texture_paths_of b \<noteq> [] \<longrightarrow>
           (\<exists>count w'. create_materials_from_files env inp pth w = (Success count, w')))"
proof (intro conjI allI impI)
  let ?mat = "length (materials w)"
  let ?w1 = "(py_print (Creating (i + 1) n nm) w)
      \<lparr>materials := materials w @ [built_material (stored_name env w nm)]\<rparr>"
  obtain w' cr' where res: "create_material env n i nm tp (w, cr) = (w', cr')"
    by (cases "create_material env n i nm tp (w, cr)")
  note new' = create_material_new [OF new res]
  from new'(2) obtain m' where m': "materials w' = materials w @ [m']"
    by blast
  have path: "calls_on_path env tp ?w1 = calls_on_path env tp w"
    by (simp add: calls_on_path_def)
  {
    fix c
    assume c: "c \<in> set (calls_on_path env tp w) \<and> c \<noteq> Reload \<and> raises env nm tp c"
    then have "c \<in> set (calls_on_path env tp ?w1)" "c \<noteq> Reload" "raises env nm tp c"
      unfolding path by simp_all
    from setup_texture_raises [OF this, of ?mat 1 4]
    obtain c' w_err where r': "setup_texture env ?mat 1 4 nm tp ?w1 = Inl (c', w_err)"
      by blast
    show "snd (create_material env n i nm tp (w, cr)) = cr @ [?mat]"
      using new'(1) res by simp
    show "length (materials (fst (create_material env n i nm tp (w, cr)))) = Suc ?mat"
      using m' res by simp
    show "node_base_color (mat_nodes (materials (fst (create_material env n i nm tp (w, cr)))
              ! ?mat) ! 1) = Some fallback_color"
      using create_material_fallback [OF new r' res] res by simp
    have "node_type (mat_nodes (materials w_err ! ?mat) ! 1)
        = node_type (mat_nodes (materials ?w1 ! ?mat) ! 1)"
      using setup_texture_keeps_nodes [of env ?mat 1 4 nm tp ?w1 ?mat 1] r'
      by (simp add: world_of_def)
    then have "node_type (mat_nodes (materials w_err ! ?mat) ! 1) = ''ShaderNodeBsdfPrincipled''"
      by (simp add: built_material_def new_node_def)
    moreover have "materials w' = materials
        (update_node ?mat 1 (\<lambda>nd. nd\<lparr>node_base_color := Some fallback_color\<rparr>)
           (py_print (ErrorSettingUp tp c') w_err))"
      using res r' by (auto simp: create_material_unfold [OF new] Let_def)
    ultimately show "node_type (mat_nodes (materials
        (fst (create_material env n i nm tp (w, cr))) ! ?mat) ! 1) = ''ShaderNodeBsdfPrincipled''"
      using res by (simp add: update_node_field_proj)
  }
  {
    assume ok: "\<forall>c. c \<noteq> Reload \<longrightarrow> \<not> raises env nm tp c"
    show "snd (create_material env n i nm tp (w, cr)) = cr @ [?mat]"
      using new'(1) res by simp
    obtain w2 where r: "setup_texture env ?mat 1 4 nm tp ?w1 = Inr w2"
      using setup_texture_no_raise [OF ok] by blast
    have "node_base_color (mat_nodes (materials w2 ! ?mat) ! 1)
        = node_base_color (mat_nodes (materials ?w1 ! ?mat) ! 1)"
      using setup_texture_keeps_nodes [of env ?mat 1 4 nm tp ?w1 ?mat 1] r
      by (simp add: world_of_def)
    then have "node_base_color (mat_nodes (materials w2 ! ?mat) ! 1) = None"
      by (simp add: built_material_def new_node_def)
    moreover have "materials w' = materials w2"
      using res r by (auto simp: create_material_unfold [OF new] Let_def)
    ultimately show "node_base_color (mat_nodes (materials
        (fst (create_material env n i nm tp (w, cr))) ! ?mat) ! 1) = None"
      using res by simp
  }
  {
    fix a b
    assume "read_lines env inp = Lines a \<and> read_lines env pth = Lines b
           \<and> material_names_of a \<noteq> [] \<and> texture_paths_of b \<noteq> []"
    then show "\<exists>count w'. create_materials_from_files env inp pth w = (Success count, w')"
      using create_materials_from_files_run [of env inp a pth b w] by (simp add: Let_def)
  }
qed

theorem texture_error_fallback_witness:
  "''wood'' \<notin> set (map mat_name (materials empty_world))
   \<and> calls_on_path load_error_env ''a.png'' empty_world
       = [ScanImages, LoadImage, AssignImage, SetFilepath, Reload, SetInterpolation, LinkAlpha]
   \<and> raises load_error_env ''wood'' ''a.png'' LoadImage
   \<and> snd (create_material load_error_env 4 0 ''wood'' ''a.png'' (empty_world, []))
       = [] @ [length (materials empty_world)]
   \<and> node_base_color (mat_nodes (materials
         (fst (create_material load_error_env 4 0 ''wood'' ''a.png'' (empty_world, [])))
           ! length (materials empty_world)) ! 1) = Some fallback_color
   \<and> calls_on_path alpha_error_env ''a.png'' empty_world
       = [ScanImages, NewImage, PlaceholderPath, SetSource, AssignImage, SetFilepath,
          SetInterpolation, LinkAlpha]
   \<and> raises alpha_error_env ''wood'' ''a.png'' LinkAlpha
   \<and> node_base_color (mat_nodes (materials
         (fst (create_material alpha_error_env 4 0 ''wood'' ''a.png'' (empty_world, [])))
           ! length (materials empty_world)) ! 1) = Some fallback_color
   \<and> (\<forall>c. raises reload_env ''wood'' ''a.png'' c = (c = Reload))
   \<and> node_base_color (mat_nodes (materials
         (fst (create_material reload_env 4 0 ''wood'' ''a.png'' (empty_world, [])))
           ! length (materials empty_world)) ! 1) = None
   \<and> read_lines load_error_env ''names.txt'' = Lines names_file
   \<and> read_lines load_error_env ''paths.txt'' = Lines paths_file
   \<and> material_names_of names_file \<noteq> [] \<and> texture_paths_of paths_file \<noteq> []
   \<and> (\<exists>count w'. create_materials_from_files load_error_env ''names.txt'' ''paths.txt''
          empty_world = (Success count, w'))"
proof -
  have a: "''wood'' \<notin> set (map mat_name (materials empty_world))"
    by (simp add: empty_world_def)
  have p1: "calls_on_path load_error_env ''a.png'' empty_world
       = [ScanImages, LoadImage, AssignImage, SetFilepath, Reload, SetInterpolation, LinkAlpha]"
    by (simp add: calls_on_path_def load_error_env_def demo_env_def empty_world_def)
  have p2: "calls_on_path alpha_error_env ''a.png'' empty_world
       = [ScanImages, NewImage, PlaceholderPath, SetSource, AssignImage, SetFilepath,
          SetInterpolation, LinkAlpha]"
    by (simp add: calls_on_path_def alpha_error_env_simps empty_world_def)
  have r1: "raises load_error_env ''wood'' ''a.png'' LoadImage"
    by (simp add: load_error_env_simps)
  have r2: "raises alpha_error_env ''wood'' ''a.png'' LinkAlpha"
    by (simp add: alpha_error_env_simps)
  have c: "\<forall>c. c \<noteq> Reload \<longrightarrow> \<not> raises reload_env ''wood'' ''a.png'' c"
    by (simp add: reload_env_simps)
  have d: "read_lines load_error_env ''names.txt'' = Lines names_file"
    "read_lines load_error_env ''paths.txt'' = Lines paths_file"
    "material_names_of names_file \<noteq> []" "texture_paths_of paths_file \<noteq> []"
    by (simp_all add: load_error_env_simps demo_names demo_paths)
  have m1: "LoadImage \<in> set (calls_on_path load_error_env ''a.png'' empty_world)"
    unfolding p1 by simp
  have m2: "LinkAlpha \<in> set (calls_on_path alpha_error_env ''a.png'' empty_world)"
    unfolding p2 by simp
  from texture_error_fallback [OF a, where env = load_error_env and tp = "''a.png''"
      and i = 0 and n = 4 and cr = "[]" and inp = "''names.txt''" and pth = "''paths.txt''"] m1 r1 d
  have e: "snd (create_material load_error_env 4 0 ''wood'' ''a.png'' (empty_world, []))
       = [] @ [length (materials empty_world)]"
    "node_base_color (mat_nodes (materials
         (fst (create_material load_error_env 4 0 ''wood'' ''a.png'' (empty_world, [])))
           ! length (materials empty_world)) ! 1) = Some fallback_color"
    "\<exists>count w'. create_materials_from_files load_error_env ''names.txt'' ''paths.txt''
          empty_world = (Success count, w')"
    by blast+
  from texture_error_fallback [OF a, where env = alpha_error_env and tp = "''a.png''"
      and i = 0 and n = 4 and cr = "[]" and inp = "''names.txt''" and pth = "''paths.txt''"] m2 r2
  have e2: "node_base_color (mat_nodes (materials
         (fst (create_material alpha_error_env 4 0 ''wood'' ''a.png'' (empty_world, [])))
           ! length (materials empty_world)) ! 1) = Some fallback_color"
    by blast
  from texture_error_fallback [OF a, where env = reload_env and tp = "''a.png''"
      and i = 0 and n = 4 and cr = "[]" and inp = "''names.txt''" and pth = "''paths.txt''"] c
  have f: "node_base_color (mat_nodes (materials
         (fst (create_material reload_env 4 0 ''wood'' ''a.png'' (empty_world, [])))
           ! length (materials empty_world)) ! 1) = None"
    by blast
  have c': "\<forall>c. raises reload_env ''wood'' ''a.png'' c = (c = Reload)"
    by (simp add: reload_env_simps)
  from a p1 p2 r1 r2 c' d e e2 f show ?thesis by blast
qed

text \<open>
  As stated, the claim covers every host call of the texture set-up.  When the file exists
  and \<open>img.reload()\<close> raises, the set-up goes on and the Base Color is left alone.
\<close>

theorem reload_error_counterexample:
  "path_exists reload_env (normpath reload_env ''a.png'')
   \<and> Reload \<in> set (calls_on_path reload_env ''a.png'' empty_world)
   \<and> raises reload_env ''wood'' ''a.png'' Reload
   \<and> create_material reload_env 4 0 ''wood'' ''a.png'' (empty_world, []) =
       (\<lparr>materials = [textured_material ''wood'' 0 True],
         images = [\<lparr>img_name = ''a.png'', img_filepath = ''a.png'', img_source = ''FILE'',
                    img_size = (512, 256)\<rparr>],
         objects = [], active_object = None,
         stdout = [Creating 1 4 ''wood'', LoadedNewImage ''a.png'' ''a.png'', CouldNotReload,
                   FilepathSet ''a.png'', NodesCreated 5, LinksCreated 5]\<rparr>, [0])
   \<and> node_type (mat_nodes (textured_material ''wood'' 0 True) ! 1) = ''ShaderNodeBsdfPrincipled''
   \<and> node_base_color (mat_nodes (textured_material ''wood'' 0 True) ! 1) \<noteq> Some fallback_color"
  by (simp add: create_material_loaded reload_env_simps empty_world_def textured_material_def
      new_node_def loaded_image_def set_filepath_def resized_def host_name_short
      calls_on_path_def)

section \<open>The grid layout\<close>

text \<open>
  Claim C2.  For a non-empty collection of \<open>n\<close> materials \<open>create_material_planes\<close>
  succeeds and adds \<open>n\<close> planes.  With \<open>w = ceil(sqrt(n))\<close>, plane \<open>i\<close> carries material
  \<open>i\<close> and lies at \<open>((i mod w) * 2.5, (i div w) * 2.5, 0)\<close>; column and row are below
  \<open>w\<close>, and \<open>w\<close> is the least number whose square is at least \<open>n\<close>.
\<close>

theorem grid_layout:
  assumes "materials w \<noteq> []" and "i < length (materials w)"
  shows "fst (fst (create_material_planes env w))
     \<and> length (objects (snd (create_material_planes env w)))
         = length (objects w) + length (materials w)
     \<and> obj_location (objects (snd (create_material_planes env w)) ! (length (objects w) + i))
         = (real (i mod nat \<lceil>sqrt (real (length (materials w)))\<rceil>) * 2.5,
            real (i div nat \<lceil>sqrt (real (length (materials w)))\<rceil>) * 2.5, 0)
     \<and> obj_materials (objects (snd (create_material_planes env w)) ! (length (objects w) + i))
         = [i]
     \<and> i mod nat \<lceil>sqrt (real (length (materials w)))\<rceil> < nat \<lceil>sqrt (real (length (materials w)))\<rceil>
     \<and> i div nat \<lceil>sqrt (real (length (materials w)))\<rceil> < nat \<lceil>sqrt (real (length (materials w)))\<rceil>
     \<and> (nat \<lceil>sqrt (real (length (materials w)))\<rceil> - 1)\<^sup>2 < length (materials w)
     \<and> length (materials w) \<le> (nat \<lceil>sqrt (real (length (materials w)))\<rceil>)\<^sup>2"
proof -
  let ?n = "length (materials w)"
  let ?g = "nat \<lceil>sqrt (real ?n)\<rceil>"
  let ?w1 = "select_all_deselect (py_print (FoundMaterials ?n) w)"
  let ?w2 = "planes_loop env ?g 0 [0..<?n] ?w1"
  from assms(1) have n: "0 < ?n" by simp
  note g = ceil_sqrt_bounds [OF n]
  have w1: "materials ?w1 = materials w" "length (objects ?w1) = length (objects w)"
    by (simp_all add: select_all_deselect_def)
  from planes_loop_objects [of env ?g 0 "[0..<?n]" ?w1]
  have len: "length (objects ?w2) = length (objects w) + ?n"
    and pl: "\<forall>k < ?n. placement (objects ?w2 ! (length (objects w) + k)) =
           (plane_size,
            (real ((0 + k) mod ?g) * grid_spacing, real ((0 + k) div ?g) * grid_spacing, 0),
            [[0..<?n] ! k])"
    unfolding w1 by simp_all
  from pl assms(2)
  have "placement (objects ?w2 ! (length (objects w) + i)) =
      (plane_size, (real (i mod ?g) * grid_spacing, real (i div ?g) * grid_spacing, 0), [i])"
    by simp
  then have ob: "obj_location (objects ?w2 ! (length (objects w) + i))
        = (real (i mod ?g) * 2.5, real (i div ?g) * 2.5, 0)"
    "obj_materials (objects ?w2 ! (length (objects w) + i)) = [i]"
    by (simp_all add: placement_def grid_spacing_def plane_size_def spacing_def)
  have "i < ?g * ?g" using assms(2) g(3) by (simp add: power2_eq_square)
  then have dv: "i div ?g < ?g" using g(1) by (simp add: less_mult_imp_div_less)
  have md: "i mod ?g < ?g" using g(1) by simp
  show ?thesis
    unfolding create_material_planes_run [OF assms(1)]
    using len ob dv md g(2,3) by (simp del: str_nat.simps)
qed

theorem grid_layout_witness:
  "materials five_world \<noteq> [] \<and> (4::nat) < length (materials five_world)
   \<and> nat \<lceil>sqrt (real (length (materials five_world)))\<rceil> = 3
   \<and> fst (fst (create_material_planes demo_env five_world))
   \<and> length (objects (snd (create_material_planes demo_env five_world))) = 5
   \<and> obj_location (objects (snd (create_material_planes demo_env five_world)) ! 4)
       = (2.5, 2.5, 0)
   \<and> obj_materials (objects (snd (create_material_planes demo_env five_world)) ! 4) = [4]"
proof -
  have a: "materials five_world \<noteq> []" and b: "(4::nat) < length (materials five_world)"
    by (simp_all add: five_world_def)
  have n: "length (materials five_world) = 5" by (simp add: five_world_def)
  have g: "nat \<lceil>sqrt (real (5::nat))\<rceil> = 3"
    by (rule ceil_sqrt_eq) (simp_all add: power2_eq_square)
  have o: "length (objects five_world) = 0" by (simp add: five_world_def)
  from grid_layout [OF a b, of demo_env] show ?thesis
    unfolding n g o using a b by simp
qed

end
